theory Spec2Isabelle
  imports Complex_Main
begin

section \<open>JavaScript values used by the motility controller\<close>

text \<open>
  A JavaScript string is a sequence of UTF-16 code units. The program's Spanish text needs
  code units beyond ASCII, so a string is a list of code units (natural numbers); \<open>js\<close>
  embeds an ASCII literal.
\<close>

type_synonym jsstring = "nat list"

definition js :: "string \<Rightarrow> jsstring" where
  "js s = map of_char s"

text \<open>
  The severity of a segment is a JavaScript number, and \<open>setSegmentState\<close> stores the number
  it is given. \<open>Num\<close> carries the integers and \<open>Frac\<close> the finite numbers that are not
  integers, each as the decimal fraction that JavaScript writes for it (2.5 is \<open>Frac (5 / 2)\<close>);
  then there are the two infinities and \<open>NaN\<close> (the value of \<open>undefined % 4\<close>). Comparing with
  an integer and taking the remainder are exact on these; a sum is the exact sum, which is what
  JavaScript computes wherever the exact sum needs no rounding. The zero has no sign.
\<close>

datatype jsnum = Num int | Frac rat | Infinity | NegInfinity | NaN

text \<open>The number with a finite value: an integer is a \<open>Num\<close>.\<close>

definition number_of :: "rat \<Rightarrow> jsnum" where
  "number_of q = (if q = of_int \<lfloor>q\<rfloor> then Num \<lfloor>q\<rfloor> else Frac q)"

fun js_add :: "jsnum \<Rightarrow> jsnum \<Rightarrow> jsnum" where
  "js_add (Num a) (Num b) = Num (a + b)"
| "js_add (Num a) (Frac q) = number_of (of_int a + q)"
| "js_add (Frac p) (Num b) = number_of (p + of_int b)"
| "js_add (Frac p) (Frac q) = number_of (p + q)"
| "js_add NaN _ = NaN"
| "js_add _ NaN = NaN"
| "js_add Infinity NegInfinity = NaN"
| "js_add NegInfinity Infinity = NaN"
| "js_add Infinity _ = Infinity"
| "js_add _ Infinity = Infinity"
| "js_add NegInfinity _ = NegInfinity"
| "js_add _ NegInfinity = NegInfinity"

text \<open>
  The remainder operator \<open>%\<close> truncates: the result has the sign of the dividend. The
  remainder by zero or of an infinity is \<open>NaN\<close>, and the remainder by an infinity is the
  dividend.
\<close>

definition rat_rem :: "rat \<Rightarrow> rat \<Rightarrow> jsnum" where
  "rat_rem x y =
     (if y = 0 then NaN else number_of (sgn x * (\<bar>x\<bar> - \<bar>y\<bar> * of_int \<lfloor>\<bar>x\<bar> / \<bar>y\<bar>\<rfloor>)))"

fun js_rem :: "jsnum \<Rightarrow> jsnum \<Rightarrow> jsnum" where
  "js_rem (Num a) (Num b) = (if b = 0 then NaN else Num (sgn a * (\<bar>a\<bar> mod \<bar>b\<bar>)))"
| "js_rem (Num a) (Frac q) = rat_rem (of_int a) q"
| "js_rem (Frac p) (Num b) = rat_rem p (of_int b)"
| "js_rem (Frac p) (Frac q) = rat_rem p q"
| "js_rem NaN _ = NaN"
| "js_rem _ NaN = NaN"
| "js_rem Infinity _ = NaN"
| "js_rem NegInfinity _ = NaN"
| "js_rem x Infinity = x"
| "js_rem x NegInfinity = x"

fun js_ge :: "jsnum \<Rightarrow> int \<Rightarrow> bool" where
  "js_ge (Num a) b = (b \<le> a)"
| "js_ge (Frac q) b = (of_int b \<le> q)"
| "js_ge Infinity _ = True"
| "js_ge NegInfinity _ = False"
| "js_ge NaN _ = False"

fun js_le :: "jsnum \<Rightarrow> int \<Rightarrow> bool" where
  "js_le (Num a) b = (a \<le> b)"
| "js_le (Frac q) b = (q \<le> of_int b)"
| "js_le Infinity _ = False"
| "js_le NegInfinity _ = True"
| "js_le NaN _ = False"


text \<open>Truthiness of a number: \<open>0\<close> and \<open>NaN\<close> are falsy.\<close>

fun truthy :: "jsnum \<Rightarrow> bool" where
  "truthy (Num a) = (a \<noteq> 0)"
| "truthy (Frac q) = (q \<noteq> 0)"
| "truthy NaN = False"
| "truthy _ = True"

subsection \<open>Numbers as text\<close>

fun digits :: "nat \<Rightarrow> jsstring" where
  "digits n = (if n < 10 then [48 + n] else digits (n div 10) @ [48 + n mod 10])"

declare digits.simps [simp del]

definition numberToString :: "int \<Rightarrow> jsstring" where
  "numberToString i = (if i < 0 then 45 # digits (nat (- i)) else digits (nat i))"

text \<open>
  The numeral of a finite number that is not an integer. From \<open>0.000001\<close> on it is the
  integer part, a point and the decimals; below, it is the first digit, the further decimals
  behind a point if there are any, and the exponent, as in \<open>1.5e-7\<close>. A number has at most 17
  significant digits, so the decimals end; \<open>decimals\<close> writes at most \<open>n\<close> of them.
\<close>

fun decimals :: "nat \<Rightarrow> rat \<Rightarrow> jsstring" where
  "decimals 0 r = []"
| "decimals (Suc n) r =
     (if r = 0 then []
      else (48 + nat \<lfloor>r * 10\<rfloor>) # decimals n (r * 10 - of_int \<lfloor>r * 10\<rfloor>))"

text \<open>How many times a positive value below 1 is multiplied by 10 to reach 1, up to \<open>n\<close> times.\<close>

fun exponent :: "nat \<Rightarrow> rat \<Rightarrow> nat" where
  "exponent 0 a = 0"
| "exponent (Suc n) a = (if 1 \<le> a then 0 else Suc (exponent n (a * 10)))"

definition fracToString :: "rat \<Rightarrow> jsstring" where
  "fracToString q =
     (let a = \<bar>q\<bar>;
          s = (if q < 0 then [45] else [])
      in if 1 / 1000000 \<le> a then
           s @ digits (nat \<lfloor>a\<rfloor>) @ [46] @ decimals 30 (a - of_int \<lfloor>a\<rfloor>)
         else
           (let e = exponent 400 a;
                m = a * 10 ^ e;
                d = decimals 30 (m - of_int \<lfloor>m\<rfloor>)
            in s @ digits (nat \<lfloor>m\<rfloor>) @ (if d = [] then [] else 46 # d)
                 @ [101, 45] @ digits e))"

text \<open>
  \<open>Number.prototype.toFixed(2)\<close>: the sign, then the integer \<open>n\<close> for which \<open>n / 100\<close> is
  closest to the magnitude (the larger one on a tie), written with at least three digits and
  a point before the last two. The argument is the exact quotient; the double that
  JavaScript divides to is within \<open>2 ^ - 52\<close> of it relatively, while a quotient by 17 is
  never closer than \<open>1 / 3400\<close> to a rounding tie, so for the sums a severity map can hold
  both round to the same hundredth.
\<close>

definition toFixed2 :: "rat \<Rightarrow> jsstring" where
  "toFixed2 x =
     (let s = (if x < 0 then [45] else []);
          n = nat \<lfloor>\<bar>x\<bar> * 100 + 1 / 2\<rfloor>;
          m = digits n;
          m' = replicate (3 - length m) 48 @ m;
          k = length m'
      in s @ take (k - 2) m' @ [46] @ drop (k - 2) m')"

text \<open>The exceptions that the modelled code can throw.\<close>

datatype error = TypeError | SyntaxError

section \<open>The segment model\<close>

datatype artery = DA | CD | Cx

record segment =
  name :: jsstring
  artery :: artery

text \<open>\<open>MotilityModel.SEGMENTS\<close>: the 17 segments of the AHA/ASE model, keyed by id.\<close>

definition SEGMENTS :: "(nat \<times> segment) list" where
  "SEGMENTS =
    [(1, \<lparr>name = js ''Basal Anterior'', artery = DA\<rparr>),
     (2, \<lparr>name = js ''Basal Anteroseptal'', artery = DA\<rparr>),
     (3, \<lparr>name = js ''Basal Inferoseptal'', artery = CD\<rparr>),
     (4, \<lparr>name = js ''Basal Inferior'', artery = CD\<rparr>),
     (5, \<lparr>name = js ''Basal Inferolateral'', artery = Cx\<rparr>),
     (6, \<lparr>name = js ''Basal Anterolateral'', artery = Cx\<rparr>),
     (7, \<lparr>name = js ''Medio Anterior'', artery = DA\<rparr>),
     (8, \<lparr>name = js ''Medio Anteroseptal'', artery = DA\<rparr>),
     (9, \<lparr>name = js ''Medio Inferoseptal'', artery = CD\<rparr>),
     (10, \<lparr>name = js ''Medio Inferior'', artery = CD\<rparr>),
     (11, \<lparr>name = js ''Medio Inferolateral'', artery = Cx\<rparr>),
     (12, \<lparr>name = js ''Medio Anterolateral'', artery = Cx\<rparr>),
     (13, \<lparr>name = js ''Apical Anterior'', artery = DA\<rparr>),
     (14, \<lparr>name = js ''Apical Septal'', artery = DA\<rparr>),
     (15, \<lparr>name = js ''Apical Inferior'', artery = CD\<rparr>),
     (16, \<lparr>name = js ''Apical Lateral'', artery = Cx\<rparr>),
     (17, \<lparr>name = js ''Apex'', artery = DA\<rparr>)]"

section \<open>The motility controller\<close>

text \<open>
  \<open>this.state\<close> is an object whose keys are segment ids. JavaScript enumerates integer keys
  in ascending order, so the object is an association list kept sorted by key.
\<close>

type_synonym segstate = "(nat \<times> jsnum) list"

fun obj_set :: "nat \<Rightarrow> jsnum \<Rightarrow> segstate \<Rightarrow> segstate" where
  "obj_set k v [] = [(k, v)]"
| "obj_set k v ((k', v') # r) =
     (if k < k' then (k, v) # (k', v') # r
      else if k = k' then (k, v) # r
      else (k', v') # obj_set k v r)"

datatype target = Segment nat | All

text \<open>
  The controller with the part of the world it writes: \<open>localStorage\<close> and the calls made
  to the registered listeners (each call hands over the target and the state). The DOM
  updates of \<open>updateUI\<close> and \<open>updatePreview\<close> change no field of the controller and are
  left out.
\<close>

record controller =
  state :: segstate
  pattern :: jsstring
  storage :: "jsstring \<rightharpoonup> jsstring"
  notified :: "(target \<times> segstate) list"

definition getDefaultState :: segstate where
  "getDefaultState = foldl (\<lambda>st i. obj_set i (Num 1) st) [] [1..<18]"

definition getSegmentState :: "controller \<Rightarrow> nat \<Rightarrow> jsnum" where
  "getSegmentState c segmentId =
     (case map_of (state c) segmentId of
        None \<Rightarrow> Num 1
      | Some v \<Rightarrow> if truthy v then v else Num 1)"

subsection \<open>Persistence and listeners\<close>

text \<open>
  \<open>JSON.stringify\<close> of the state object; \<open>NaN\<close> and the infinities are written as \<open>null\<close>.
\<close>

fun stringify_num :: "jsnum \<Rightarrow> jsstring" where
  "stringify_num (Num i) = numberToString i"
| "stringify_num (Frac q) = fracToString q"
| "stringify_num _ = js ''null''"

fun join :: "jsstring \<Rightarrow> jsstring list \<Rightarrow> jsstring" where
  "join sep [] = []"
| "join sep [x] = x"
| "join sep (x # y # r) = x @ sep @ join sep (y # r)"

definition JSON_stringify :: "segstate \<Rightarrow> jsstring" where
  "JSON_stringify st =
     [123] @ join [44] (map (\<lambda>(k, v). [34] @ digits k @ [34, 58] @ stringify_num v) st) @ [125]"

definition saveToStorage :: "controller \<Rightarrow> controller" where
  "saveToStorage c = c\<lparr>storage := (storage c)(js ''motility-state'' \<mapsto> JSON_stringify (state c))\<rparr>"

definition notifyListeners :: "target \<Rightarrow> controller \<Rightarrow> controller" where
  "notifyListeners t c = c\<lparr>notified := notified c @ [(t, state c)]\<rparr>"

subsection \<open>Mutations\<close>

text \<open>\<open>toggleSegment\<close>: 1, 2, 3, 4 and back to 1. A segment with no entry reads \<open>undefined\<close>.\<close>

definition toggleSegment :: "nat \<Rightarrow> controller \<Rightarrow> controller" where
  "toggleSegment segmentId c =
     (let current = (case map_of (state c) segmentId of None \<Rightarrow> NaN | Some v \<Rightarrow> v);
          c1 = c\<lparr>state := obj_set segmentId (js_add (js_rem current (Num 4)) (Num 1)) (state c)\<rparr>
      in notifyListeners (Segment segmentId) (saveToStorage c1))"

definition setSegmentState :: "nat \<Rightarrow> jsnum \<Rightarrow> controller \<Rightarrow> controller" where
  "setSegmentState segmentId v c =
     (if js_ge v 1 \<and> js_le v 4
      then notifyListeners (Segment segmentId) (saveToStorage (c\<lparr>state := obj_set segmentId v (state c)\<rparr>))
      else c)"

subsection \<open>Wall Motion Score Index\<close>

definition calculateWMSI :: "controller \<Rightarrow> jsstring" where
  "calculateWMSI c =
     (case foldl js_add (Num 0) (map snd (state c)) of
        NaN \<Rightarrow> js ''NaN''
      | Num s \<Rightarrow> toFixed2 (of_int s / 17)
      | Frac q \<Rightarrow> toFixed2 (q / 17)
      | Infinity \<Rightarrow> js ''Infinity''
      | NegInfinity \<Rightarrow> js ''-Infinity'')"

subsection \<open>String operations of the host\<close>

definition startsWith :: "jsstring \<Rightarrow> jsstring \<Rightarrow> bool" where
  "startsWith s p = (take (length p) s = p)"


fun str_includes :: "jsstring \<Rightarrow> jsstring \<Rightarrow> bool" where
  "str_includes [] p = (p = [])"
| "str_includes (c # cs) p = (startsWith (c # cs) p \<or> str_includes cs p)"

text \<open>\<open>String.prototype.replace\<close> with a string pattern: the first occurrence only.\<close>

fun replace_first :: "jsstring \<Rightarrow> jsstring \<Rightarrow> jsstring \<Rightarrow> jsstring" where
  "replace_first p r [] = (if p = [] then r else [])"
| "replace_first p r (c # cs) =
     (if startsWith (c # cs) p then r @ drop (length p) (c # cs) else c # replace_first p r cs)"

text \<open>White space and line terminators: what \<open>\s\<close> matches and \<open>trim\<close> removes.\<close>

definition is_space :: "nat \<Rightarrow> bool" where
  "is_space c =
     (c \<in> {9, 10, 11, 12, 13, 32, 160, 5760, 8232, 8233, 8239, 8287, 12288, 65279}
      \<or> (8192 \<le> c \<and> c \<le> 8202))"

text \<open>
  \<open>toLowerCase\<close>, code unit by code unit. This is the Unicode mapping on Latin-1 (code units
  below 256), which holds all the letters of the program's text; beyond it the host consults
  tables that are not modelled, and the code unit is left as it is.
\<close>

definition toLower :: "nat \<Rightarrow> nat" where
  "toLower c =
     (if (65 \<le> c \<and> c \<le> 90) \<or> (192 \<le> c \<and> c \<le> 214) \<or> (216 \<le> c \<and> c \<le> 222)
      then c + 32 else c)"

definition toLowerCase :: "jsstring \<Rightarrow> jsstring" where
  "toLowerCase s = map toLower s"

subsection \<open>Patterns\<close>

record pattern_info =
  pname :: jsstring
  description :: jsstring
  affectedSegments :: "nat list"
  severity :: jsnum
  category :: jsstring
  isDiffuse :: bool

text \<open>\<open>MotilityModel.PATTERNS\<close>; a pattern without the \<open>isDiffuse\<close> flag reads it as falsy.\<close>

definition PATTERNS :: "(jsstring \<times> pattern_info) list" where
  "PATTERNS =
    [(js ''ischemic_da'',
      \<lparr>pname = js ''Isqu'' @ [233] @ js ''mico DA'',
       description = js ''Patr'' @ [243] @ js ''n isqu'' @ [233] @ js ''mico territorial en descendente anterior'',
       affectedSegments = [1, 2, 7, 8, 13, 14, 17],
       severity = Num 2,
       category = js ''ischemic'',
       isDiffuse = False\<rparr>),
     (js ''ischemic_cd'',
      \<lparr>pname = js ''Isqu'' @ [233] @ js ''mico CD'',
       description = js ''Patr'' @ [243] @ js ''n isqu'' @ [233] @ js ''mico territorial en coronaria derecha'',
       affectedSegments = [3, 4, 9, 10, 15],
       severity = Num 2,
       category = js ''ischemic'',
       isDiffuse = False\<rparr>),
     (js ''ischemic_cx'',
      \<lparr>pname = js ''Isqu'' @ [233] @ js ''mico Cx'',
       description = js ''Patr'' @ [243] @ js ''n isqu'' @ [233] @ js ''mico territorial en circunfleja'',
       affectedSegments = [5, 6, 11, 12, 16],
       severity = Num 2,
       category = js ''ischemic'',
       isDiffuse = False\<rparr>),
     (js ''ischemic_multivessel'',
      \<lparr>pname = js ''Isquemia Multivaso'',
       description = js ''Patr'' @ [243] @ js ''n isqu'' @ [233] @ js ''mico de m'' @ [250] @ js ''ltiples territorios'',
       affectedSegments = [1, 2, 4, 7, 8, 10, 13, 14, 15, 17],
       severity = Num 2,
       category = js ''ischemic'',
       isDiffuse = False\<rparr>),
     (js ''takotsubo_apical'',
      \<lparr>pname = js ''Takotsubo Apical'',
       description = js ''Patr'' @ [243] @ js ''n apical cl'' @ [225] @ js ''sico (capuch'' @ [243] @ js ''n apical)'',
       affectedSegments = [13, 14, 15, 16, 17],
       severity = Num 2,
       category = js ''takotsubo'',
       isDiffuse = False\<rparr>),
     (js ''takotsubo_mid'',
      \<lparr>pname = js ''Takotsubo Medioventricular'',
       description = js ''Patr'' @ [243] @ js ''n medioventricular (rosquilla)'',
       affectedSegments = [7, 8, 9, 10, 11, 12],
       severity = Num 2,
       category = js ''takotsubo'',
       isDiffuse = False\<rparr>),
     (js ''takotsubo_inverted'',
      \<lparr>pname = js ''Takotsubo Invertido'',
       description = js ''Patr'' @ [243] @ js ''n basal (invertido)'',
       affectedSegments = [1, 2, 3, 4, 5, 6],
       severity = Num 2,
       category = js ''takotsubo'',
       isDiffuse = False\<rparr>),
     (js ''takotsubo_focal'',
      \<lparr>pname = js ''Takotsubo Focal'',
       description = js ''Patr'' @ [243] @ js ''n focal anterolateral'',
       affectedSegments = [6, 12],
       severity = Num 2,
       category = js ''takotsubo'',
       isDiffuse = False\<rparr>),
     (js ''dilated_cm'',
      \<lparr>pname = js ''Miocardiopat'' @ [237] @ js ''a Dilatada'',
       description = js ''Hipoquinesia difusa global'',
       affectedSegments = [1, 2, 3, 4, 5, 6, 7, 8, 9, 10, 11, 12, 13, 14, 15, 16],
       severity = Num 2,
       category = js ''cardiomyopathy'',
       isDiffuse = True\<rparr>),
     (js ''hypertensive_cm'',
      \<lparr>pname = js ''Cardiopat'' @ [237] @ js ''a Hipertensiva'',
       description = js ''Compromiso basal predominante'',
       affectedSegments = [1, 2, 3, 4, 5, 6, 7, 8, 9, 10, 11, 12],
       severity = Num 2,
       category = js ''cardiomyopathy'',
       isDiffuse = True\<rparr>),
     (js ''chagas'',
      \<lparr>pname = js ''Chagas'',
       description = js ''Patr'' @ [243] @ js ''n t'' @ [237] @ js ''pico: aneurisma apical + compromiso inferobasal'',
       affectedSegments = [4, 10, 17],
       severity = Num 2,
       category = js ''cardiomyopathy'',
       isDiffuse = False\<rparr>),
     (js ''da_cx'',
      \<lparr>pname = js ''DA + Cx (Anterolateral ext)'',
       description = js ''Compromiso anterior y anterolateral'',
       affectedSegments = [1, 6, 7, 12, 13, 16, 17],
       severity = Num 2,
       category = js ''combined'',
       isDiffuse = False\<rparr>),
     (js ''da_cd_wrap'',
      \<lparr>pname = js ''DA envolvente (Wrap-around)'',
       description = js ''Compromiso anterior con extensi'' @ [243] @ js ''n inferior apical'',
       affectedSegments = [1, 2, 7, 8, 13, 14, 15, 17],
       severity = Num 2,
       category = js ''combined'',
       isDiffuse = False\<rparr>),
     (js ''cx_cd'',
      \<lparr>pname = js ''Cx + CD (Inferolateral)'',
       description = js ''Compromiso inferior e inferolateral'',
       affectedSegments = [4, 5, 10, 11, 15],
       severity = Num 2,
       category = js ''combined'',
       isDiffuse = False\<rparr>),
     (js ''multivessel'',
      \<lparr>pname = js ''Multivaso (DA+Cx+CD)'',
       description = js ''Compromiso multiterritorial difuso'',
       affectedSegments = [1, 2, 3, 4, 5, 6, 7, 8, 9, 10, 11, 12, 13, 14, 15, 16],
       severity = Num 2,
       category = js ''combined'',
       isDiffuse = False\<rparr>),
     (js ''left_main'',
      \<lparr>pname = js ''Tronco CI'',
       description = js ''Compromiso extenso anterior y lateral (bases)'',
       affectedSegments = [1, 2, 5, 6, 7, 8, 11, 12, 13, 14],
       severity = Num 2,
       category = js ''combined'',
       isDiffuse = False\<rparr>),
     (js ''da_distal'',
      \<lparr>pname = js ''DA Distal / Apical pura'',
       description = js ''Compromiso apical anterior y septal, bases preservadas'',
       affectedSegments = [13, 14, 15, 16, 17],
       severity = Num 2,
       category = js ''combined'',
       isDiffuse = False\<rparr>),
     (js ''bcri'',
      \<lparr>pname = js ''BCRI / Disincron'' @ [237] @ js ''a'',
       description = js ''Disincron'' @ [237] @ js ''a mec'' @ [225] @ js ''nica por bloqueo de rama izquierda'',
       affectedSegments = [2, 3, 8, 9, 14],
       severity = Num 2,
       category = js ''dyssynchrony'',
       isDiffuse = False\<rparr>),
     (js ''bcrd'',
      \<lparr>pname = js ''BCRD (Rama Derecha)'',
       description = js ''Asincron'' @ [237] @ js ''a septal leve por bloqueo de rama derecha'',
       affectedSegments = [2, 8],
       severity = Num 1,
       category = js ''dyssynchrony'',
       isDiffuse = False\<rparr>),
     (js ''pacemaker'',
      \<lparr>pname = js ''Marcapasos (MCP)'',
       description = js ''Disincron'' @ [237] @ js ''a por estimulaci'' @ [243] @ js ''n ventricular'',
       affectedSegments = [2, 3, 8, 9, 14],
       severity = Num 2,
       category = js ''dyssynchrony'',
       isDiffuse = False\<rparr>),
     (js ''post_surgery'',
      \<lparr>pname = js ''Post Cirug'' @ [237] @ js ''a Card'' @ [237] @ js ''aca'',
       description = js ''Movimiento septal an'' @ [243] @ js ''malo post-quir'' @ [250] @ js ''rgico'',
       affectedSegments = [2, 3, 8, 9, 14],
       severity = Num 2,
       category = js ''dyssynchrony'',
       isDiffuse = False\<rparr>),
     (js ''aneurysm_anterior'',
      \<lparr>pname = js ''Aneurisma Anterior'',
       description = js ''Disquinesia de pared anterior'',
       affectedSegments = [1, 7, 13],
       severity = Num 4,
       category = js ''special'',
       isDiffuse = False\<rparr>),
     (js ''aneurysm_apical'',
      \<lparr>pname = js ''Aneurisma Apical'',
       description = js ''Disquinesia/aquinesia apical'',
       affectedSegments = [13, 14, 15, 16, 17],
       severity = Num 4,
       category = js ''special'',
       isDiffuse = False\<rparr>),
     (js ''aneurysm_inferior'',
      \<lparr>pname = js ''Aneurisma Inferior'',
       description = js ''Disquinesia de pared inferior'',
       affectedSegments = [4, 10, 15],
       severity = Num 4,
       category = js ''special'',
       isDiffuse = False\<rparr>)]"

subsection \<open>Derived metrics\<close>

record abnormal =
  hypokinetic :: "nat list"
  akinetic :: "nat list"
  dyskinetic :: "nat list"

definition getAbnormalSegments :: "controller \<Rightarrow> abnormal" where
  "getAbnormalSegments c =
     \<lparr>hypokinetic = map fst (filter (\<lambda>(k, v). v = Num 2) (state c)),
      akinetic = map fst (filter (\<lambda>(k, v). v = Num 3) (state c)),
      dyskinetic = map fst (filter (\<lambda>(k, v). v = Num 4) (state c))\<rparr>"

definition totalAbnormal :: "controller \<Rightarrow> nat" where
  "totalAbnormal c =
     (let a = getAbnormalSegments c
      in length (hypokinetic a) + length (akinetic a) + length (dyskinetic a))"

text \<open>
  \<open>MotilityModel.SEGMENTS[id].artery\<close> for each id; reading a field of \<open>undefined\<close>
  (an id that is no segment) throws a TypeError.
\<close>

fun arteries_of :: "nat list \<Rightarrow> error + artery list" where
  "arteries_of [] = Inr []"
| "arteries_of (i # r) =
     (case map_of SEGMENTS i of
        None \<Rightarrow> Inl TypeError
      | Some seg \<Rightarrow> (case arteries_of r of Inl e \<Rightarrow> Inl e | Inr as \<Rightarrow> Inr (artery seg # as)))"

definition score :: "artery list \<Rightarrow> artery \<Rightarrow> nat" where
  "score as t = length (filter (\<lambda>a. a = t) as)"


subsection \<open>Walls and levels\<close>

text \<open>The regular expression \<open>/^(Basal|Medio|Apical)\s+/\<close>, replaced by the empty string.\<close>

definition strip_level :: "jsstring \<Rightarrow> jsstring" where
  "strip_level s =
     (let n = (if startsWith s (js ''Basal'') then Some 5
               else if startsWith s (js ''Medio'') then Some 5
               else if startsWith s (js ''Apical'') then Some (6::nat)
               else None)
      in case n of
           None \<Rightarrow> s
         | Some k \<Rightarrow>
             (case drop k s of
                [] \<Rightarrow> s
              | x # r \<Rightarrow> if is_space x then dropWhile is_space r else s))"

definition getWallName :: "nat \<Rightarrow> error + jsstring" where
  "getWallName segmentId =
     (case map_of SEGMENTS segmentId of
        None \<Rightarrow> Inl TypeError
      | Some seg \<Rightarrow> Inr (replace_first (js ''Apex'') (js ''Apical'') (strip_level (name seg))))"

datatype level = Basal | Media | Apical

fun level_text :: "level \<Rightarrow> jsstring" where
  "level_text Basal = js ''basal''"
| "level_text Media = js ''media''"
| "level_text Apical = js ''apical''"

text \<open>The comparator's table \<open>{ basal: 0, media: 1, apical: 2 }\<close>.\<close>

fun level_order :: "level \<Rightarrow> nat" where
  "level_order Basal = 0"
| "level_order Media = 1"
| "level_order Apical = 2"

definition getLevel :: "nat \<Rightarrow> error + level" where
  "getLevel segmentId =
     (case map_of SEGMENTS segmentId of
        None \<Rightarrow> Inl TypeError
      | Some seg \<Rightarrow>
          Inr (if startsWith (name seg) (js ''Basal'') then Basal
               else if startsWith (name seg) (js ''Medio'') then Media
               else Apical))"

definition formatWallName :: "jsstring \<Rightarrow> jsstring" where
  "formatWallName wall =
     (let lowerWall = toLowerCase wall
      in if str_includes lowerWall (js ''anteroseptal'') then js ''anteroseptal''
         else if str_includes lowerWall (js ''inferoseptal'') then js ''inferoseptal''
         else if str_includes lowerWall (js ''inferolateral'') then js ''inferolateral''
         else if str_includes lowerWall (js ''anterolateral'') then js ''anterolateral''
         else lowerWall)"

subsection \<open>Findings text\<close>

text \<open>
  One severity tier of \<open>groupedBySeverity\<close>: an object keyed by wall name, in insertion order,
  each wall with the levels pushed for it.
\<close>

type_synonym walls = "(jsstring \<times> level list) list"

fun add_level :: "jsstring \<Rightarrow> level \<Rightarrow> walls \<Rightarrow> walls" where
  "add_level w l [] = [(w, [l])]"
| "add_level w l ((w', ls) # r) =
     (if w = w' then (w', ls @ [l]) # r else (w', ls) # add_level w l r)"

fun group_by_wall :: "nat list \<Rightarrow> walls \<Rightarrow> error + walls" where
  "group_by_wall [] g = Inr g"
| "group_by_wall (i # r) g =
     (case getWallName i of
        Inl e \<Rightarrow> Inl e
      | Inr w \<Rightarrow> (case getLevel i of Inl e \<Rightarrow> Inl e | Inr l \<Rightarrow> group_by_wall r (add_level w l g)))"

text \<open>\<open>[...new Set(xs)]\<close>: the first occurrence of each element, in order.\<close>

fun unique_from :: "'a list \<Rightarrow> 'a list \<Rightarrow> 'a list" where
  "unique_from seen [] = []"
| "unique_from seen (x # xs) =
     (if x \<in> set seen then unique_from seen xs else x # unique_from (seen @ [x]) xs)"

definition uniqueLevels :: "level list \<Rightarrow> level list" where
  "uniqueLevels levels = unique_from [] (sort_key level_order levels)"

definition levelsText :: "level list \<Rightarrow> jsstring" where
  "levelsText levels =
     (let u = uniqueLevels levels
      in if length u = 3 then js ''basal, media y apical''
         else if length u = 2 then join (js '' y '') (map level_text u)
         else (case u of [] \<Rightarrow> js ''undefined'' | x # _ \<Rightarrow> level_text x))"

definition wallDescription :: "jsstring \<times> level list \<Rightarrow> jsstring" where
  "wallDescription e =
     (let wallName = formatWallName (fst e); t = levelsText (snd e)
      in if toLowerCase wallName = js ''apical'' \<and> t = js ''apical'' then js ''nivel apical''
         else js ''pared '' @ wallName @ js '' ('' @ t @ js '')'')"

definition joinWalls :: "jsstring list \<Rightarrow> jsstring" where
  "joinWalls ds =
     (if length ds = 1 then hd ds
      else if length ds = 2 then join (js '' y '') ds
      else (case rev ds of
              [] \<Rightarrow> js '' y undefined''
            | l # _ \<Rightarrow> join (js '', '') (butlast ds) @ js '' y '' @ l))"

definition severityClause :: "jsstring \<Rightarrow> walls \<Rightarrow> jsstring list" where
  "severityClause sev ws =
     (if ws = [] then [] else [sev @ js '' de '' @ joinWalls (map wallDescription ws)])"

definition currentPattern :: "controller \<Rightarrow> pattern_info option" where
  "currentPattern c = (if pattern c \<noteq> js ''none'' then map_of PATTERNS (pattern c) else None)"

definition diffuseText :: "controller \<Rightarrow> pattern_info \<Rightarrow> jsstring" where
  "diffuseText c p =
     (let a = getAbnormalSegments c;
          parts = (if length (akinetic a) > 0 then [js ''aquinesia''] else [])
                @ (if length (hypokinetic a) > 0 then [js ''hipoquinesia''] else [])
                @ (if length (dyskinetic a) > 0 then [js ''disquinesia''] else []);
          severityText = (if length parts = 1 then hd parts else join (js '' y '') parts);
          wmsi = calculateWMSI c
      in if str_includes (pname p) (js ''Dilatada'')
         then js ''Se observan trastornos segmentarios de la motilidad parietal: '' @ severityText
              @ js '' global difusa que no respeta un territorio coronario espec'' @ [237]
              @ js ''fico (WMSI: '' @ wmsi @ js '').'' @ [10]
         else if str_includes (pname p) (js ''Hipertensiva'')
         then js ''Se observan trastornos segmentarios de la motilidad parietal: '' @ severityText
              @ js '' con predominio basal y medio ventricular (WMSI: '' @ wmsi @ js '').'' @ [10]
         else js ''Se observan trastornos segmentarios de la motilidad parietal: '' @ severityText
              @ js '' difusa (WMSI: '' @ wmsi @ js '').'' @ [10])"

definition dyssynchronyText :: "controller \<Rightarrow> pattern_info \<Rightarrow> jsstring" where
  "dyssynchronyText c p =
     (let d =
        (if pattern c = js ''bcri'' then
           js ''Se observa alteraci'' @ [243] @ js ''n del patr'' @ [243] @ js ''n de contracci''
           @ [243] @ js ''n ventricular compatible con disincron'' @ [237] @ js ''a mec'' @ [225]
           @ js ''nica, caracterizada por movimiento septal an'' @ [243]
           @ js ''malo (septal flash), en el contexto de bloqueo completo de rama izquierda''
         else if pattern c = js ''bcrd'' then
           js ''Motilidad parietal del ventr'' @ [237]
           @ js ''culo izquierdo conservada. Se observa asincron'' @ [237]
           @ js ''a leve del septum, en relaci'' @ [243] @ js ''n a bloqueo completo de rama derecha''
         else if pattern c = js ''pacemaker'' then
           js ''Se observa patr'' @ [243] @ js ''n de contracci'' @ [243] @ js ''n disincr'' @ [243]
           @ js ''nico del ventr'' @ [237] @ js ''culo izquierdo, con movimiento septal parad''
           @ [243] @ js ''jico, en relaci'' @ [243] @ js ''n a estimulaci'' @ [243]
           @ js ''n ventricular por marcapasos''
         else if pattern c = js ''post_surgery'' then
           js ''Se observa movimiento septal an'' @ [243]
           @ js ''malo, probablemente relacionado a antecedente de cirug'' @ [237] @ js ''a card''
           @ [237] @ js ''aca''
         else description p)
      in d @ js '' (WMSI: '' @ calculateWMSI c @ js '').'' @ [10])"

definition focalText :: "controller \<Rightarrow> error + jsstring" where
  "focalText c =
     (let a = getAbnormalSegments c
      in case group_by_wall (akinetic a) [] of
           Inl e \<Rightarrow> Inl e
         | Inr aq \<Rightarrow>
          (case group_by_wall (hypokinetic a) [] of
             Inl e \<Rightarrow> Inl e
           | Inr hq \<Rightarrow>
            (case group_by_wall (dyskinetic a) [] of
               Inl e \<Rightarrow> Inl e
             | Inr dq \<Rightarrow>
                 Inr (js ''Se observan trastornos segmentarios de la motilidad parietal, con ''
                      @ join (js ''; '')
                          (severityClause (js ''aquinesia'') aq
                           @ severityClause (js ''hipoquinesia'') hq
                           @ severityClause (js ''disquinesia'') dq)
                      @ js '' (WMSI: '' @ calculateWMSI c @ js '').'' @ [10]))))"

definition generateMotilityReport :: "controller \<Rightarrow> error + jsstring" where
  "generateMotilityReport c =
     (if totalAbnormal c = 0 then Inr []
      else (case currentPattern c of
              None \<Rightarrow> focalText c
            | Some p \<Rightarrow>
                if isDiffuse p \<and> totalAbnormal c \<ge> 12 then Inr (diffuseText c p)
                else if category p = js ''dyssynchrony'' then Inr (dyssynchronyText c p)
                else focalText c))"

subsection \<open>Conclusion text\<close>

fun artery_text :: "artery \<Rightarrow> jsstring" where
  "artery_text DA = js ''DA''"
| "artery_text CD = js ''CD''"
| "artery_text Cx = js ''Cx''"

text \<open>
  The canned sentence of the active pattern, if it has one: first the five patterns tested
  by name, then the \<open>switch\<close> of the pattern's category. A category whose \<open>switch\<close> has no
  case for the pattern falls through to the territories.
\<close>

definition cannedConclusion :: "controller \<Rightarrow> jsstring option" where
  "cannedConclusion c =
     (let p = pattern c in
      if p = js ''none'' then None
      else if p = js ''dilated_cm'' then
        Some (js ''Patr'' @ [243] @ js ''n de hipoquinesia global, sugestivo de miocardiopat''
              @ [237] @ js ''a dilatada.'')
      else if p = js ''post_surgery'' then
        Some (js ''Movimiento septal an'' @ [243] @ js ''malo en relaci'' @ [243]
              @ js ''n a antecedentes quir'' @ [250] @ js ''rgicos.'')
      else if p = js ''bcri'' then
        Some (js ''Patr'' @ [243] @ js ''n de contracci'' @ [243] @ js ''n disincr'' @ [243]
              @ js ''nico con movimiento septal parad'' @ [243] @ js ''jico, en relaci'' @ [243]
              @ js ''n a BCRI.'')
      else if p = js ''pacemaker'' then
        Some (js ''Disincron'' @ [237] @ js ''a mec'' @ [225] @ js ''nica secundaria a estimulaci''
              @ [243] @ js ''n ventricular por marcapasos.'')
      else if p = js ''bcrd'' then
        Some (js ''Asincron'' @ [237] @ js ''a septal leve en relaci'' @ [243] @ js ''n a BCRD.'')
      else (case map_of PATTERNS p of
              None \<Rightarrow> None
            | Some cp \<Rightarrow>
                if category cp = js ''combined'' then
                  (if p = js ''da_cx'' then
                     Some (js ''Patr'' @ [243] @ js ''n sugestivo de afectaci'' @ [243]
                           @ js ''n combinada DA'' @ [8211] @ js ''Cx.'')
                   else if p = js ''da_cd_wrap'' then
                     Some (js ''Patr'' @ [243] @ js ''n compatible con DA envolvente.'')
                   else if p = js ''cx_cd'' then
                     Some (js ''Patr'' @ [243] @ js ''n sugestivo de afectaci'' @ [243]
                           @ js ''n combinada Cx'' @ [8211] @ js ''CD.'')
                   else if p = js ''multivessel'' then
                     Some (js ''Patr'' @ [243] @ js ''n sugestivo de enfermedad coronaria multivaso.'')
                   else if p = js ''left_main'' then
                     Some (js ''Patr'' @ [243] @ js ''n sugestivo de afectaci'' @ [243]
                           @ js ''n del Tronco de CI.'')
                   else if p = js ''da_distal'' then
                     Some (js ''Patr'' @ [243] @ js ''n sugestivo de lesi'' @ [243]
                           @ js ''n de DA distal.'')
                   else None)
                else if category cp = js ''dyssynchrony'' then
                  (if p = js ''bcri'' then
                     Some (js ''Patr'' @ [243] @ js ''n de contracci'' @ [243] @ js ''n disincr''
                           @ [243] @ js ''nico con movimiento septal parad'' @ [243]
                           @ js ''jico, en relaci'' @ [243] @ js ''n a BCRI.'')
                   else if p = js ''bcrd'' then
                     Some (js ''Asincron'' @ [237] @ js ''a septal leve en relaci'' @ [243]
                           @ js ''n a BCRD.'')
                   else if p = js ''pacemaker'' then
                     Some (js ''Disincron'' @ [237] @ js ''a mec'' @ [225]
                           @ js ''nica secundaria a estimulaci'' @ [243]
                           @ js ''n ventricular por marcapasos.'')
                   else None)
                else if category cp = js ''cardiomyopathy'' then
                  (if p = js ''dilated_cm'' then
                     Some (js ''Patr'' @ [243]
                           @ js ''n de hipoquinesia global, sugestivo de miocardiopat'' @ [237]
                           @ js ''a dilatada.'')
                   else if p = js ''hypertensive_cm'' then
                     Some (js ''Patr'' @ [243] @ js ''n sugestivo de cardiopat'' @ [237]
                           @ js ''a hipertensiva.'')
                   else if p = js ''chagas'' then
                     Some (js ''Patr'' @ [243] @ js ''n sugestivo de miocardiopat'' @ [237]
                           @ js ''a chag'' @ [225] @ js ''sica.'')
                   else None)
                else if category cp = js ''takotsubo'' then
                  Some (js ''Patr'' @ [243] @ js ''n sugestivo de Miocardiopat'' @ [237]
                        @ js ''a por Estr'' @ [233] @ js ''s (Takotsubo).'')
                else None))"

text \<open>\<open>byTerritory\<close>: per territory the counts \<open>hipo\<close>, \<open>aki\<close>, \<open>dis\<close>.\<close>

definition territoryClause :: "artery list \<Rightarrow> artery list \<Rightarrow> artery list \<Rightarrow> artery \<Rightarrow> jsstring" where
  "territoryClause hipo aki dis t =
     (let severities = (if score aki t > 0 then [js ''Aquinesia''] else [])
                     @ (if score hipo t > 0 then [js ''Hipoquinesia''] else [])
                     @ (if score dis t > 0 then [js ''Discinesia''] else []);
          severityText = (if length severities = 1 then hd severities
                          else join (js '' e '') severities)
      in severityText @ js '' en territorio de '' @ artery_text t)"

definition territoryConclusion :: "controller \<Rightarrow> error + jsstring" where
  "territoryConclusion c =
     (let a = getAbnormalSegments c
      in case arteries_of (hypokinetic a) of
           Inl e \<Rightarrow> Inl e
         | Inr hipo \<Rightarrow>
          (case arteries_of (akinetic a) of
             Inl e \<Rightarrow> Inl e
           | Inr aki \<Rightarrow>
            (case arteries_of (dyskinetic a) of
               Inl e \<Rightarrow> Inl e
             | Inr dis \<Rightarrow>
                (let affectedTerritories =
                       filter (\<lambda>t. score hipo t + score aki t + score dis t > 0) [DA, CD, Cx]
                 in case affectedTerritories of
                      [territory] \<Rightarrow>
                        Inr (js ''Trastornos de la motilidad Segmentaria en Territorio ''
                             @ artery_text territory @ js ''.'')
                    | _ \<Rightarrow>
                        Inr (join (js '', '') (map (territoryClause hipo aki dis) affectedTerritories)
                             @ js ''.'')))))"

definition generateConclusion :: "controller \<Rightarrow> error + jsstring" where
  "generateConclusion c =
     (if totalAbnormal c = 0 then Inr []
      else (case cannedConclusion c of
              Some s \<Rightarrow> Inr s
            | None \<Rightarrow> territoryConclusion c))"

subsection \<open>Patterns and reset\<close>

definition setItem :: "jsstring \<Rightarrow> jsstring \<Rightarrow> controller \<Rightarrow> controller" where
  "setItem k v c = c\<lparr>storage := (storage c)(k \<mapsto> v)\<rparr>"

text \<open>
  \<open>MotilityModel.PATTERNS\<close> is an object literal, so the lookup \<open>PATTERNS[patternName]\<close> also
  finds what every object inherits from \<open>Object.prototype\<close>: under these names a function, or
  the prototype itself, which is truthy and has no property \<open>affectedSegments\<close>.
\<close>

definition inherited :: "jsstring list" where
  "inherited =
     [js ''constructor'', js ''__defineGetter__'', js ''__defineSetter__'', js ''hasOwnProperty'',
      js ''__lookupGetter__'', js ''__lookupSetter__'', js ''isPrototypeOf'',
      js ''propertyIsEnumerable'', js ''toString'', js ''valueOf'', js ''__proto__'',
      js ''toLocaleString'']"

text \<open>
  A call that writes to the controller and may throw: it returns, or it throws an exception,
  and either way it leaves the controller as written so far.
\<close>

datatype outcome = Returns controller | Throws error controller

text \<open>
  \<open>setPattern\<close> writes the name to the controller and to the storage first. With an inherited
  name, reading \<open>pattern.affectedSegments.length\<close> then throws a TypeError.
\<close>

definition setPattern :: "jsstring \<Rightarrow> controller \<Rightarrow> outcome" where
  "setPattern patternName c =
     (let c1 = setItem (js ''motility-pattern'') patternName (c\<lparr>pattern := patternName\<rparr>)
      in if patternName \<noteq> js ''none'' then
           (case map_of PATTERNS patternName of
              None \<Rightarrow> if patternName \<in> set inherited then Throws TypeError c1 else Returns c1
            | Some p \<Rightarrow>
                if length (affectedSegments p) > 0 then
                  (let st1 = foldl (\<lambda>st i. obj_set i (Num 1) st) (state c1) [1..<18];
                       sev = (if truthy (severity p) then severity p else Num 3);
                       st2 = foldl (\<lambda>st i. obj_set i sev st) st1 (affectedSegments p)
                   in Returns (notifyListeners All (saveToStorage (c1\<lparr>state := st2\<rparr>))))
                else Returns c1)
         else Returns c1)"

definition reset :: "controller \<Rightarrow> controller" where
  "reset c =
     notifyListeners All
       (setItem (js ''motility-pattern'') (js ''none'')
          (saveToStorage (c\<lparr>state := getDefaultState, pattern := js ''none''\<rparr>)))"

section \<open>Construction from the persisted state\<close>

subsection \<open>\<open>JSON.parse\<close>\<close>

text \<open>
  The host's \<open>JSON.parse\<close>, by the grammar of ECMA-404. A number keeps its literal text.
\<close>

datatype json =
    JNull
  | JBool bool
  | JNumber jsstring
  | JString jsstring
  | JArray "json list"
  | JObject "(jsstring \<times> json) list"

text \<open>
  The parser descends with fuel. \<open>Exhausted\<close> (the fuel ran out) is kept apart from
  \<open>Malformed\<close> (the text is no JSON), so that the model never takes one for the other.
\<close>

datatype 'a parsed = Parsed 'a jsstring | Malformed | Exhausted

definition is_digit :: "nat \<Rightarrow> bool" where
  "is_digit c = (48 \<le> c \<and> c \<le> 57)"

definition is_ws :: "nat \<Rightarrow> bool" where
  "is_ws c = (c = 9 \<or> c = 10 \<or> c = 13 \<or> c = 32)"

definition skip_ws :: "jsstring \<Rightarrow> jsstring" where
  "skip_ws s = dropWhile is_ws s"

definition hex_value :: "nat \<Rightarrow> nat option" where
  "hex_value c =
     (if 48 \<le> c \<and> c \<le> 57 then Some (c - 48)
      else if 97 \<le> c \<and> c \<le> 102 then Some (c - 87)
      else if 65 \<le> c \<and> c \<le> 70 then Some (c - 55)
      else None)"

definition escape :: "nat \<Rightarrow> nat option" where
  "escape e =
     (if e = 34 then Some 34 else if e = 92 then Some 92 else if e = 47 then Some 47
      else if e = 98 then Some 8 else if e = 102 then Some 12 else if e = 110 then Some 10
      else if e = 114 then Some 13 else if e = 116 then Some 9 else None)"

text \<open>The characters of a string after the opening quote, up to the closing one.\<close>

fun parse_chars :: "jsstring \<Rightarrow> jsstring \<Rightarrow> (jsstring \<times> jsstring) option" where
  "parse_chars acc [] = None"
| "parse_chars acc (c # r) =
     (if c = 34 then Some (acc, r)
      else if c = 92 then
        (case r of
           [] \<Rightarrow> None
         | e # r1 \<Rightarrow>
             if e = 117 then
               (case r1 of
                  h1 # h2 # h3 # h4 # r2 \<Rightarrow>
                    (case (hex_value h1, hex_value h2, hex_value h3, hex_value h4) of
                       (Some a, Some b, Some c', Some d) \<Rightarrow>
                         parse_chars (acc @ [((a * 16 + b) * 16 + c') * 16 + d]) r2
                     | _ \<Rightarrow> None)
                | _ \<Rightarrow> None)
             else (case escape e of None \<Rightarrow> None | Some x \<Rightarrow> parse_chars (acc @ [x]) r1))
      else if c < 32 then None
      else parse_chars (acc @ [c]) r)"

text \<open>A number: sign, integer part without leading zeros, fraction, exponent.\<close>

definition parse_int_part :: "jsstring \<Rightarrow> (jsstring \<times> jsstring) option" where
  "parse_int_part s =
     (case s of
        [] \<Rightarrow> None
      | c # r \<Rightarrow>
          if c = 48 then Some ([48], r)
          else if 49 \<le> c \<and> c \<le> 57 then Some (takeWhile is_digit s, dropWhile is_digit s)
          else None)"

definition parse_frac :: "jsstring \<Rightarrow> (jsstring \<times> jsstring) option" where
  "parse_frac s =
     (case s of
        [] \<Rightarrow> Some ([], s)
      | c # r \<Rightarrow>
          if c = 46 then
            (if takeWhile is_digit r = [] then None
             else Some (46 # takeWhile is_digit r, dropWhile is_digit r))
          else Some ([], s))"

definition parse_exp :: "jsstring \<Rightarrow> (jsstring \<times> jsstring) option" where
  "parse_exp s =
     (case s of
        [] \<Rightarrow> Some ([], s)
      | c # r \<Rightarrow>
          if c = 101 \<or> c = 69 then
            (let sg = (case r of [] \<Rightarrow> [] | x # _ \<Rightarrow> if x = 43 \<or> x = 45 then [x] else []);
                 r1 = drop (length sg) r
             in if takeWhile is_digit r1 = [] then None
                else Some (c # sg @ takeWhile is_digit r1, dropWhile is_digit r1))
          else Some ([], s))"

definition parse_number :: "jsstring \<Rightarrow> (jsstring \<times> jsstring) option" where
  "parse_number s =
     (let sg = (case s of [] \<Rightarrow> [] | c # _ \<Rightarrow> if c = 45 then [45] else [])
      in case parse_int_part (drop (length sg) s) of
           None \<Rightarrow> None
         | Some (ip, r1) \<Rightarrow>
             (case parse_frac r1 of
                None \<Rightarrow> None
              | Some (fp, r2) \<Rightarrow>
                  (case parse_exp r2 of
                     None \<Rightarrow> None
                   | Some (ep, r3) \<Rightarrow> Some (sg @ ip @ fp @ ep, r3))))"

fun parse_value :: "nat \<Rightarrow> jsstring \<Rightarrow> json parsed"
  and parse_elements :: "nat \<Rightarrow> json list \<Rightarrow> jsstring \<Rightarrow> json parsed"
  and parse_members :: "nat \<Rightarrow> (jsstring \<times> json) list \<Rightarrow> jsstring \<Rightarrow> json parsed"
where
  "parse_value 0 s = Exhausted"
| "parse_value (Suc n) s =
     (case skip_ws s of
        [] \<Rightarrow> Malformed
      | c # r \<Rightarrow>
          if c = 123 then
            (case skip_ws r of
               [] \<Rightarrow> Malformed
             | x # r1 \<Rightarrow> if x = 125 then Parsed (JObject []) r1 else parse_members n [] r)
          else if c = 91 then
            (case skip_ws r of
               [] \<Rightarrow> Malformed
             | x # r1 \<Rightarrow> if x = 93 then Parsed (JArray []) r1 else parse_elements n [] r)
          else if c = 34 then
            (case parse_chars [] r of None \<Rightarrow> Malformed | Some (t, r1) \<Rightarrow> Parsed (JString t) r1)
          else if c = 45 \<or> is_digit c then
            (case parse_number (c # r) of None \<Rightarrow> Malformed | Some (t, r1) \<Rightarrow> Parsed (JNumber t) r1)
          else if startsWith (c # r) (js ''true'') then Parsed (JBool True) (drop 4 (c # r))
          else if startsWith (c # r) (js ''false'') then Parsed (JBool False) (drop 5 (c # r))
          else if startsWith (c # r) (js ''null'') then Parsed JNull (drop 4 (c # r))
          else Malformed)"
| "parse_elements 0 acc s = Exhausted"
| "parse_elements (Suc n) acc s =
     (case parse_value n s of
        Exhausted \<Rightarrow> Exhausted
      | Malformed \<Rightarrow> Malformed
      | Parsed v r \<Rightarrow>
          (case skip_ws r of
             [] \<Rightarrow> Malformed
           | x # r1 \<Rightarrow>
               if x = 44 then parse_elements n (acc @ [v]) r1
               else if x = 93 then Parsed (JArray (acc @ [v])) r1
               else Malformed))"
| "parse_members 0 acc s = Exhausted"
| "parse_members (Suc n) acc s =
     (case skip_ws s of
        [] \<Rightarrow> Malformed
      | q # r \<Rightarrow>
          if q = 34 then
            (case parse_chars [] r of
               None \<Rightarrow> Malformed
             | Some (k, r1) \<Rightarrow>
                 (case skip_ws r1 of
                    [] \<Rightarrow> Malformed
                  | x # r2 \<Rightarrow>
                      if x = 58 then
                        (case parse_value n r2 of
                           Exhausted \<Rightarrow> Exhausted
                         | Malformed \<Rightarrow> Malformed
                         | Parsed v r3 \<Rightarrow>
                             (case skip_ws r3 of
                                [] \<Rightarrow> Malformed
                              | y # r4 \<Rightarrow>
                                  if y = 44 then parse_members n (acc @ [(k, v)]) r4
                                  else if y = 125 then Parsed (JObject (acc @ [(k, v)])) r4
                                  else Malformed))
                      else Malformed))
          else Malformed)"

text \<open>
  \<open>JSON.parse\<close>: one value, then only white space. A malformed text throws a SyntaxError;
  \<open>None\<close> says that the fuel ran out.
\<close>

definition JSON_parse :: "jsstring \<Rightarrow> (error + json) option" where
  "JSON_parse s =
     (case parse_value (2 * length s + 2) s of
        Exhausted \<Rightarrow> None
      | Malformed \<Rightarrow> Some (Inl SyntaxError)
      | Parsed v r \<Rightarrow> if skip_ws r = [] then Some (Inr v) else Some (Inl SyntaxError))"

subsection \<open>The constructor\<close>

text \<open>
  What a parsed value is as \<open>this.state\<close>. The values that are falsy give way to the default
  state. An object whose keys are array indices and whose values are integer literals is a
  severity map, in ascending order of the keys, the later of two equal keys winning. Any
  other value would be stored as it is; the model does not read such a state back:
  \<open>None\<close> says so.
\<close>

definition nat_of_digits :: "jsstring \<Rightarrow> nat" where
  "nat_of_digits ds = foldl (\<lambda>a d. 10 * a + (d - 48)) 0 ds"

definition index_of_key :: "jsstring \<Rightarrow> nat option" where
  "index_of_key k =
     (if k \<noteq> [] \<and> list_all is_digit k \<and> (k = [48] \<or> hd k \<noteq> 48) \<and> nat_of_digits k \<le> 4294967294
      then Some (nat_of_digits k) else None)"

definition int_of_literal :: "jsstring \<Rightarrow> int option" where
  "int_of_literal t =
     (let ds = (case t of [] \<Rightarrow> [] | c # r \<Rightarrow> if c = 45 then r else t)
      in if ds \<noteq> [] \<and> list_all is_digit ds \<and> nat_of_digits ds \<le> 9007199254740992
         then Some (if ds = t then int (nat_of_digits ds) else - int (nat_of_digits ds))
         else None)"

fun entries_of :: "(jsstring \<times> json) list \<Rightarrow> segstate \<Rightarrow> segstate option" where
  "entries_of [] st = Some st"
| "entries_of ((k, JNumber t) # r) st =
     (case (index_of_key k, int_of_literal t) of
        (Some i, Some v) \<Rightarrow> entries_of r (obj_set i (Num v) st)
      | _ \<Rightarrow> None)"
| "entries_of _ st = None"

fun is_zero_literal :: "jsstring \<Rightarrow> bool" where
  "is_zero_literal [] = True"
| "is_zero_literal (c # r) =
     (if c = 101 \<or> c = 69 then True
      else (c = 45 \<or> c = 46 \<or> c = 48) \<and> is_zero_literal r)"

datatype loaded = Default | Stored segstate

definition state_of_json :: "json \<Rightarrow> loaded option" where
  "state_of_json j =
     (case j of
        JNull \<Rightarrow> Some Default
      | JBool b \<Rightarrow> if b then None else Some Default
      | JString t \<Rightarrow> if t = [] then Some Default else None
      | JNumber t \<Rightarrow> if is_zero_literal t then Some Default else None
      | JArray xs \<Rightarrow> None
      | JObject kvs \<Rightarrow> map_option Stored (entries_of kvs []))"

text \<open>
  \<open>loadFromStorage\<close>: \<open>saved ? JSON.parse(saved) : null\<close>. An absent item and the empty
  string are falsy and are not parsed; an exception of \<open>JSON.parse\<close> is not caught.
\<close>

definition loadFromStorage :: "(jsstring \<rightharpoonup> jsstring) \<Rightarrow> (error + loaded) option" where
  "loadFromStorage store =
     (case store (js ''motility-state'') of
        None \<Rightarrow> Some (Inr Default)
      | Some saved \<Rightarrow>
          if saved = [] then Some (Inr Default)
          else (case JSON_parse saved of
                  None \<Rightarrow> None
                | Some (Inl e) \<Rightarrow> Some (Inl e)
                | Some (Inr j) \<Rightarrow> map_option Inr (state_of_json j)))"

text \<open>
  The constructor: the state that was loaded or else the default one, the stored pattern
  name or else \<open>none\<close>, and no listener. \<open>Inl\<close> is the exception thrown; \<open>None\<close> is a
  stored text outside the model.
\<close>

definition new_MotilityController :: "(jsstring \<rightharpoonup> jsstring) \<Rightarrow> (error + controller) option" where
  "new_MotilityController store =
     (case loadFromStorage store of
        None \<Rightarrow> None
      | Some (Inl e) \<Rightarrow> Some (Inl e)
      | Some (Inr l) \<Rightarrow>
          Some (Inr \<lparr>state = (case l of Default \<Rightarrow> getDefaultState | Stored st \<Rightarrow> st),
                     pattern = (case store (js ''motility-pattern'') of
                                  None \<Rightarrow> js ''none''
                                | Some p \<Rightarrow> if p = [] then js ''none'' else p),
                     storage = store,
                     notified = []\<rparr>))"

section \<open>Notions used to state the properties\<close>

text \<open>The four severities: Normal, Hypokinetic, Akinetic, Dyskinetic.\<close>

definition severities :: "jsnum set" where
  "severities = {Num 1, Num 2, Num 3, Num 4}"

text \<open>A number of the range from 1 to 4, whole or not.\<close>

definition from_1_to_4 :: "jsnum \<Rightarrow> bool" where
  "from_1_to_4 v =
     (case v of Num i \<Rightarrow> 1 \<le> i \<and> i \<le> 4 | Frac q \<Rightarrow> 1 \<le> q \<and> q \<le> 4 | _ \<Rightarrow> False)"

fun ordinal :: "jsnum \<Rightarrow> int" where
  "ordinal (Num i) = i"
| "ordinal _ = 0"

text \<open>The controller of a first start: nothing stored, no listener called yet.\<close>

definition initial :: controller where
  "initial = \<lparr>state = getDefaultState, pattern = js ''none'', storage = Map.empty, notified = []\<rparr>"

text \<open>A 17-segment state: an entry for each of the ids 1 to 17 and no other.\<close>

definition seventeen :: "controller \<Rightarrow> bool" where
  "seventeen c = (map fst (state c) = [1..<18])"

text \<open>The state in which the segments of \<open>ids\<close> have severity \<open>v\<close> and the others are Normal.\<close>

definition marked :: "nat list \<Rightarrow> jsnum \<Rightarrow> segstate" where
  "marked ids v = map (\<lambda>i. (i, if i \<in> set ids then v else Num 1)) [1..<18]"



text \<open>The state and pattern that applying \<open>dilated_cm\<close> leads to.\<close>

definition after_dilated :: controller where
  "after_dilated = initial\<lparr>state := marked [1, 2, 3, 4, 5, 6, 7, 8, 9, 10, 11, 12, 13, 14, 15, 16] (Num 2),
      pattern := js ''dilated_cm''\<rparr>"


text \<open>The two canned sentences of the pattern \<open>bcrd\<close>.\<close>

definition bcrd_findings :: jsstring where
  "bcrd_findings = js ''Motilidad parietal del ventr'' @ [237]
           @ js ''culo izquierdo conservada. Se observa asincron'' @ [237]
           @ js ''a leve del septum, en relaci'' @ [243] @ js ''n a bloqueo completo de rama derecha''"

definition bcrd_conclusion :: jsstring where
  "bcrd_conclusion = js ''Asincron'' @ [237] @ js ''a septal leve en relaci'' @ [243] @ js ''n a BCRD.''"









text \<open>A storage whose severity map is the text \<open>corrupt\<close>.\<close>

definition corrupt_store :: "jsstring \<rightharpoonup> jsstring" where
  "corrupt_store = [js ''motility-state'' \<mapsto> js ''corrupt'']"


section \<open>The numbered conclusions of the report\<close>

subsection \<open>Merging the motility conclusion\<close>

definition trim :: "jsstring \<Rightarrow> jsstring" where
  "trim s = rev (dropWhile is_space (rev (dropWhile is_space s)))"

text \<open>A word character of a regular expression: a letter of ASCII, a digit or the underscore.\<close>

definition is_word :: "nat \<Rightarrow> bool" where
  "is_word c = ((48 \<le> c \<and> c \<le> 57) \<or> (65 \<le> c \<and> c \<le> 90) \<or> c = 95 \<or> (97 \<le> c \<and> c \<le> 122))"

text \<open>
  Matching with the flag \<open>i\<close> and without the flag \<open>u\<close>: two code units match when their
  upper-case forms agree, and no code unit beyond ASCII has an ASCII letter for it.
\<close>

definition ascii_upper :: "nat \<Rightarrow> nat" where
  "ascii_upper c = (if 97 \<le> c \<and> c \<le> 122 then c - 32 else c)"

fun matches_ci :: "jsstring \<Rightarrow> jsstring \<Rightarrow> bool" where
  "matches_ci [] s = True"
| "matches_ci (p # ps) [] = False"
| "matches_ci (p # ps) (c # cs) = (ascii_upper c = ascii_upper p \<and> matches_ci ps cs)"

text \<open>
  \<open>s.replace(/\btoken\b/gi, r)\<close> for a token made of word characters. The text is scanned
  from the left; \<open>pw\<close> tells whether the code unit before the current place is a word
  character. The token matches where no word character stands before it nor after it, and
  the scan goes on behind the match.
\<close>

fun replace_token :: "jsstring \<Rightarrow> jsstring \<Rightarrow> bool \<Rightarrow> jsstring \<Rightarrow> jsstring" where
  "replace_token t r pw [] = []"
| "replace_token t r pw (c # cs) =
     (if \<not> pw \<and> matches_ci t (c # cs)
         \<and> (case drop (length t) (c # cs) of [] \<Rightarrow> True | d # _ \<Rightarrow> \<not> is_word d)
      then r @ replace_token t r True (drop (length t - 1) cs)
      else c # replace_token t r (is_word c) cs)"


subsection \<open>The form\<close>

text \<open>
  A number of the form: a finite value, an infinity or \<open>NaN\<close>. Finite values are exact
  rationals; the fields hold decimal numerals of a few digits.
\<close>

datatype number = Finite rat | PlusInfinity | MinusInfinity | NotANumber




fun num_le :: "number \<Rightarrow> rat \<Rightarrow> bool" where
  "num_le (Finite a) b = (a \<le> b)"
| "num_le MinusInfinity b = True"
| "num_le _ b = False"


fun num_truthy :: "number \<Rightarrow> bool" where
  "num_truthy (Finite a) = (a \<noteq> 0)"
| "num_truthy NotANumber = False"
| "num_truthy _ = True"


text \<open>
  A field that the report reads as text and compares as a number: its text and the number
  the host converts the text to.
\<close>

record field =
  text_of :: jsstring
  num :: number

record diastolic =
  grade :: jsstring
  desc :: jsstring

text \<open>
  What \<open>generateReport\<close> reads on its way to the conclusions and in them: the fields of the
  form, the state of the page (\<open>geometry\<close>, \<open>diastolicResult\<close> and \<open>psap\<close> of \<open>this.state\<close>),
  the controller, and whether a quality control is attached (\<open>qc\<close>). A field that is parsed
  with \<open>parseFloat\<close> is held as the number parsed; the empty field gives \<open>NaN\<close>. The
  quality control parses \<open>fevi\<close> and \<open>ddvi\<close>, which the conclusions read as text:
  \<open>feviParsed\<close> and \<open>ddviParsed\<close> are the numbers parsed. The state of a new page has
  \<open>psap: 0\<close>.
\<close>

record inputs =
  ritmo :: jsstring
  conduccion :: jsstring
  conduccionValue :: jsstring
  geometry :: jsstring
  ddvi :: field
  sexo :: jsstring
  motility :: "controller option"
  fevi :: field
  diastolicResult :: "diastolic option"
  volAi :: number
  morfMitral :: jsstring
  imGrado :: jsstring
  emGrado :: jsstring
  iaoAdv :: "jsstring option"
  morfAortica :: jsstring
  eaGrado :: jsstring
  iaGrado :: jsstring
  sc :: field
  aoRaiz :: field
  aoAsc :: field
  adEstado :: jsstring
  vdEstado :: jsstring
  adArea :: number
  vdBasal :: number
  psap :: jsnum
  tapse :: field
  velIt :: number
  pad :: number
  qc :: bool
  motilidad :: jsstring
  feviParsed :: number
  eaAva :: number
  dsvi :: number
  ddviParsed :: number


subsection \<open>The sections\<close>

text \<open>
  The report and the number of the next conclusion. A section that has a sentence appends
  the number, a point, the sentence and a line feed, and increments the number.
\<close>

type_synonym listing = "jsstring \<times> nat"

definition emit :: "jsstring \<Rightarrow> listing \<Rightarrow> listing" where
  "emit body l = (fst l @ numberToString (int (snd l)) @ js ''. '' @ body @ [10], snd l + 1)"


















subsection \<open>The PSAP of the page\<close>

text \<open>
  \<open>HemodynamicsCalculator.calculatePSAP\<close>: \<open>Math.round(4 * Math.pow(trVelocity, 2) + rap)\<close>, and
  0 for a velocity that is missing or not positive. \<open>Math.round\<close> takes the integer nearest
  to its argument, the larger one on a tie. The arithmetic is exact on the finite values.
\<close>

fun gradient :: "number \<Rightarrow> number" where
  "gradient (Finite v) = Finite (4 * v\<^sup>2)"
| "gradient NotANumber = NotANumber"
| "gradient _ = PlusInfinity"

fun num_add :: "number \<Rightarrow> number \<Rightarrow> number" where
  "num_add (Finite a) (Finite b) = Finite (a + b)"
| "num_add NotANumber _ = NotANumber"
| "num_add _ NotANumber = NotANumber"
| "num_add PlusInfinity MinusInfinity = NotANumber"
| "num_add MinusInfinity PlusInfinity = NotANumber"
| "num_add PlusInfinity _ = PlusInfinity"
| "num_add _ PlusInfinity = PlusInfinity"
| "num_add MinusInfinity _ = MinusInfinity"
| "num_add _ MinusInfinity = MinusInfinity"

fun Math_round :: "number \<Rightarrow> jsnum" where
  "Math_round (Finite x) = Num \<lfloor>x + 1 / 2\<rfloor>"
| "Math_round PlusInfinity = Infinity"
| "Math_round MinusInfinity = NegInfinity"
| "Math_round NotANumber = NaN"

definition HemodynamicsCalculator_calculatePSAP :: "number \<Rightarrow> number \<Rightarrow> jsnum" where
  "HemodynamicsCalculator_calculatePSAP trVelocity rap =
     (if \<not> num_truthy trVelocity \<or> num_le trVelocity 0 then Num 0
      else Math_round (num_add (gradient trVelocity) rap))"

text \<open>
  \<open>UIController.calculatePSAP\<close>: with a velocity that is missing or not positive it shows a
  dash and returns, and \<open>this.state.psap\<close> stays as it was; else it stores the PSAP of the
  calculator. What it writes to the display is left out.
\<close>

definition calculatePSAP :: "inputs \<Rightarrow> inputs" where
  "calculatePSAP i =
     (let trVel = velIt i;
          rap = (if num_truthy (pad i) then pad i else Finite 5)
      in if \<not> num_truthy trVel \<or> num_le trVel 0 then i
         else i\<lparr>psap := HemodynamicsCalculator_calculatePSAP trVel rap\<rparr>)"

text \<open>
  \<open>calculateAll\<close> runs the calculations of the page. \<open>calculateBSA\<close>,
  \<open>calculateLVMassAndGeometry\<close> and \<open>calculateDiastolicFunction\<close> write \<open>sc_display\<close>,
  \<open>this.state.geometry\<close> and \<open>this.state.diastolicResult\<close>, which the record holds as these
  three leave them; they neither read nor write \<open>this.state.psap\<close>. \<open>calculatePSAP\<close> is the
  fourth; the display of the aorta and the validation of the inputs write to the page only.
\<close>

definition calculateAll :: "inputs \<Rightarrow> inputs" where
  "calculateAll i = calculatePSAP i"

subsection \<open>The quality control\<close>



subsection \<open>The report\<close>


section \<open>Notions used to state the properties of the conclusions\<close>

text \<open>A list of sentences numbered from \<open>n\<close> on, one to a line.\<close>

fun numbered :: "nat \<Rightarrow> jsstring list \<Rightarrow> jsstring" where
  "numbered n [] = []"
| "numbered n (b # bs) = numberToString (int n) @ js ''. '' @ b @ [10] @ numbered (Suc n) bs"

text \<open>
  A stretch of the listing: from \<open>l\<close> to \<open>l'\<close> the sentences \<open>bs\<close> were appended, numbered
  from the number of \<open>l\<close> on without a gap, and the number moved on by their count.
\<close>

definition appends :: "jsstring list \<Rightarrow> listing \<Rightarrow> listing \<Rightarrow> bool" where
  "appends bs l l' = (l' = (fst l @ numbered (snd l) bs, snd l + length bs))"





text \<open>
  The merged clause in the words of the specification. The trailing period is stripped and
  the first letter is lowercased.
\<close>

definition strip_period :: "jsstring \<Rightarrow> jsstring" where
  "strip_period t = (if t \<noteq> [] \<and> last t = 46 then butlast t else t)"

definition lower_first :: "jsstring \<Rightarrow> jsstring" where
  "lower_first t = (case t of [] \<Rightarrow> [] | c # r \<Rightarrow> toLower c # r)"

text \<open>
  The whole words of a text: its maximal runs of word characters. \<open>runs\<close> cuts a text into
  these, with every other code unit as a piece of its own.
\<close>

function runs :: "jsstring \<Rightarrow> jsstring list" where
  "runs [] = []"
| "runs (c # cs) =
     (if is_word c then (c # takeWhile is_word cs) # runs (dropWhile is_word cs)
      else [c] # runs cs)"
  by pat_completeness auto
termination
  by (relation "measure length") (auto simp: less_Suc_eq_le length_dropWhile_le)

text \<open>Two texts that differ in the case of their ASCII letters only.\<close>

definition same_ci :: "jsstring \<Rightarrow> jsstring \<Rightarrow> bool" where
  "same_ci a b = (map ascii_upper a = map ascii_upper b)"

text \<open>A whole word that is one of the four tokens, whatever its case, takes the token's casing.\<close>

definition canonical :: "jsstring \<Rightarrow> jsstring" where
  "canonical w =
     (if same_ci w (js ''da'') then js ''DA''
      else if same_ci w (js ''cd'') then js ''CD''
      else if same_ci w (js ''cx'') then js ''Cx''
      else if same_ci w (js ''wmsi'') then js ''WMSI''
      else w)"

text \<open>One replacement in the words of the specification: the whole word \<open>t\<close> becomes \<open>r\<close>.\<close>

definition fix_token :: "jsstring \<Rightarrow> jsstring \<Rightarrow> jsstring \<Rightarrow> jsstring" where
  "fix_token t r w = (if same_ci w t then r else w)"

definition restore_tokens :: "jsstring \<Rightarrow> jsstring" where
  "restore_tokens s = concat (map canonical (runs s))"

definition clause_of :: "jsstring \<Rightarrow> jsstring" where
  "clause_of conclusion = restore_tokens (lower_first (strip_period (trim conclusion)))"

text \<open>
  The first word of a clause, up to its first space, and the euphonic rule on it: it begins
  with \<open>i\<close>, or with \<open>hi\<close> but not with \<open>hie\<close>, in either case of the letters.
\<close>

definition first_word :: "jsstring \<Rightarrow> jsstring" where
  "first_word s = takeWhile (\<lambda>u. u \<noteq> 32) s"

definition begins :: "jsstring \<Rightarrow> string \<Rightarrow> bool" where
  "begins w p = (length p \<le> length w \<and> map ascii_upper (take (length p) w) = map ascii_upper (js p))"

definition takes_e :: "jsstring \<Rightarrow> bool" where
  "takes_e s = (begins (first_word s) ''i'' \<or> (begins (first_word s) ''hi'' \<and> \<not> begins (first_word s) ''hie''))"

text \<open>Text within Latin-1, where \<open>toLowerCase\<close> is modelled exactly.\<close>

definition latin1 :: "jsstring \<Rightarrow> bool" where
  "latin1 s = (\<forall>u\<in>set s. u < 256)"

text \<open>
  The shape of what \<open>runs\<close> returns: a piece is a word or a single other code unit, and no
  word follows a word.
\<close>

fun wf_runs :: "jsstring list \<Rightarrow> bool" where
  "wf_runs [] = True"
| "wf_runs (r # rs) =
     (r \<noteq> []
      \<and> (if list_all is_word r then (case rs of [] \<Rightarrow> True | r' # _ \<Rightarrow> \<not> list_all is_word r')
         else length r = 1)
      \<and> wf_runs rs)"

section \<open>Properties\<close>

subsection \<open>Objects keyed by segment id\<close>

lemma getDefaultState_eq:
  "getDefaultState =
     [(1, Num 1), (2, Num 1), (3, Num 1), (4, Num 1), (5, Num 1), (6, Num 1), (7, Num 1),
      (8, Num 1), (9, Num 1), (10, Num 1), (11, Num 1), (12, Num 1), (13, Num 1), (14, Num 1),
      (15, Num 1), (16, Num 1), (17, Num 1)]"
  by code_simp

lemma upt_1_18: "[1..<18] = [1, 2, 3, 4, 5, 6, 7, 8, 9, 10, 11, 12, 13, 14, 15, 16, 17::nat]"
  by code_simp

lemma map_of_obj_set: "map_of (obj_set k v st) = (map_of st)(k \<mapsto> v)"
  by (induction st) (auto simp: fun_eq_iff)

lemma obj_set_keys:
  "sorted_wrt (<) (map fst st) \<Longrightarrow> k \<in> fst ` set st \<Longrightarrow> map fst (obj_set k v st) = map fst st"
proof (induction st)
  case Nil
  then show ?case by simp
next
  case (Cons a st)
  obtain k' v' where a: "a = (k', v')" by (cases a)
  show ?case
  proof (cases "k = k'")
    case True
    then show ?thesis using a by simp
  next
    case False
    then have mem: "k \<in> fst ` set st" using Cons.prems(2) a by auto
    then have "k' < k" using Cons.prems(1) a by auto
    then show ?thesis using Cons mem a by simp
  qed
qed

lemma obj_set_twice: "obj_set k v (obj_set k w st) = obj_set k v st"
  by (induction st) auto

lemma obj_set_same:
  "sorted_wrt (<) (map fst st) \<Longrightarrow> map_of st k = Some v \<Longrightarrow> obj_set k v st = st"
proof (induction st)
  case Nil
  then show ?case by simp
next
  case (Cons a st)
  obtain k' v' where a: "a = (k', v')" by (cases a)
  show ?case
  proof (cases "k = k'")
    case True
    then show ?thesis using Cons.prems a by simp
  next
    case False
    then have m: "map_of st k = Some v" using Cons.prems a by simp
    then have "k \<in> fst ` set st" by (force dest: map_of_SomeD)
    then have "k' < k" using Cons.prems(1) a by auto
    then show ?thesis using Cons m a by simp
  qed
qed

lemma sorted_keys: "map fst st = [1..<18] \<Longrightarrow> sorted_wrt (<) (map fst st)"
  by simp

lemma initial_keys: "map fst (state initial) = [1..<18]"
  unfolding initial_def getDefaultState_eq upt_1_18 by simp

lemma initial_lookup: "map_of (state initial) 5 = Some (Num 1)"
  by (simp add: initial_def getDefaultState_eq)

subsection \<open>Wall Motion Score Index\<close>

lemma digits_small: "n < 10 \<Longrightarrow> digits n = [48 + n]"
  using digits.simps [of n] by simp

lemma digits_large: "10 \<le> n \<Longrightarrow> digits n = digits (n div 10) @ [48 + n mod 10]"
  using digits.simps [of n] by simp

lemma digits3: "100 \<le> n \<Longrightarrow> n < 1000 \<Longrightarrow> digits n = [48 + n div 100, 48 + n div 10 mod 10, 48 + n mod 10]"
proof -
  assume a: "100 \<le> n" "n < 1000"
  have 1: "digits n = digits (n div 10) @ [48 + n mod 10]"
    using a by (simp add: digits_large)
  have 2: "digits (n div 10) = digits (n div 10 div 10) @ [48 + n div 10 mod 10]"
    using a by (simp add: digits_large)
  have 3: "digits (n div 10 div 10) = [48 + n div 10 div 10]"
    using a by (simp add: digits_small)
  have 4: "n div 10 div 10 = n div 100" by (simp add: div_mult2_eq)
  show ?thesis using 1 2 3 4 by simp
qed

lemma foldl_js_add:
  "set vs \<subseteq> severities \<Longrightarrow> foldl js_add (Num a) vs = Num (a + sum_list (map ordinal vs))"
  by (induction vs arbitrary: a) (auto simp: severities_def)

lemma sum_ordinal_bounds:
  "set vs \<subseteq> severities \<Longrightarrow> int (length vs) \<le> sum_list (map ordinal vs) \<and> sum_list (map ordinal vs) \<le> 4 * int (length vs)"
  by (induction vs) (auto simp: severities_def)

lemma toFixed2_hundredths:
  assumes "100 \<le> h" "h < 1000" "\<lfloor>x * 100 + 1 / 2\<rfloor> = int h" "0 \<le> x"
  shows "toFixed2 x = [48 + h div 100, 46, 48 + h div 10 mod 10, 48 + h mod 10]"
  using assms by (simp add: toFixed2_def Let_def digits3 abs_of_nonneg)

lemma round_quotient:
  fixes s :: int
  shows "\<lfloor>(of_int s / 17 :: rat) * 100 + 1 / 2\<rfloor> = (200 * s + 17) div 34"
proof -
  have "(of_int s / 17 :: rat) * 100 + 1 / 2 = of_int (200 * s + 17) / of_int 34"
    by (simp add: field_simps)
  then show ?thesis by (simp only: floor_divide_of_int_eq)
qed


text \<open>
  C4. For every assignment of severities 1 to 4 to the 17 segments, \<open>calculateWMSI\<close> is the
  numeral with two decimals of the hundredth nearest to the sum of the ordinals over 17; it
  lies between 1.00 and 4.00, and is 1.00 when all segments are Normal and 4.00 when all are
  Dyskinetic.
\<close>

theorem calculateWMSI_rounded_mean:
  assumes keys: "map fst (state c) = [1..<18]"
      and vals: "set (map snd (state c)) \<subseteq> severities"
  shows "(\<exists>h. 100 \<le> h \<and> h \<le> 400
            \<and> \<bar>rat_of_nat h / 100 - rat_of_int (sum_list (map ordinal (map snd (state c)))) / 17\<bar> \<le> 1 / 200
            \<and> calculateWMSI c = [48 + h div 100, 46, 48 + h div 10 mod 10, 48 + h mod 10])
       \<and> (set (map snd (state c)) = {Num 1} \<longrightarrow> calculateWMSI c = js ''1.00'')
       \<and> (set (map snd (state c)) = {Num 4} \<longrightarrow> calculateWMSI c = js ''4.00'')"
proof -
  define vs where "vs = map snd (state c)"
  define s where "s = sum_list (map ordinal vs)"
  have len: "length vs = 17"
  proof -
    have "length vs = length (map fst (state c))" by (simp add: vs_def)
    then show ?thesis by (simp add: keys)
  qed
  have sub: "set vs \<subseteq> severities" using vals by (simp add: vs_def)
  have bounds: "17 \<le> s" "s \<le> 68"
    using sum_ordinal_bounds [OF sub] len by (simp_all add: s_def)
  have w: "calculateWMSI c = toFixed2 (rat_of_int s / 17)"
    using foldl_js_add [OF sub, of 0] by (simp add: calculateWMSI_def vs_def s_def)
  define h where "h = nat ((200 * s + 17) div 34)"
  have hint: "int h = (200 * s + 17) div 34" using bounds by (simp add: h_def)
  have fl: "\<lfloor>(rat_of_int s / 17) * 100 + 1 / 2\<rfloor> = int h"
    by (simp only: round_quotient hint)
  have hb: "100 \<le> h" "h \<le> 400" using bounds hint by linarith+
  have str: "calculateWMSI c = [48 + h div 100, 46, 48 + h div 10 mod 10, 48 + h mod 10]"
    using toFixed2_hundredths [OF _ _ fl] hb bounds w by simp
  have lo: "rat_of_int (int h) \<le> (rat_of_int s / 17) * 100 + 1 / 2"
    using of_int_floor_le [of "(rat_of_int s / 17) * 100 + 1 / 2"] by (simp only: fl)
  have hi: "(rat_of_int s / 17) * 100 + 1 / 2 < rat_of_int (int h) + 1"
    using floor_correct [of "(rat_of_int s / 17) * 100 + 1 / 2"] by (simp only: fl) simp
  have near: "\<bar>rat_of_nat h / 100 - rat_of_int s / 17\<bar> \<le> 1 / 200"
  proof -
    have e: "rat_of_int (int h) = rat_of_nat h" by simp
    show ?thesis using lo hi unfolding e by linarith
  qed
  have normal: "calculateWMSI c = js ''1.00''" if "set vs = {Num 1}"
  proof -
    have "map ordinal vs = replicate (length vs) 1"
      using that by (intro replicate_eqI) auto
    then have "s = 17" by (simp add: s_def len sum_list_replicate)
    then have "h = 100" by (simp add: h_def)
    then show ?thesis using str by (simp add: js_def)
  qed
  have dys: "calculateWMSI c = js ''4.00''" if "set vs = {Num 4}"
  proof -
    have "map ordinal vs = replicate (length vs) 4"
      using that by (intro replicate_eqI) auto
    then have "s = 68" by (simp add: s_def len sum_list_replicate)
    then have "h = 400" by (simp add: h_def)
    then show ?thesis using str by (simp add: js_def)
  qed
  show ?thesis using hb near str normal dys unfolding vs_def s_def by blast
qed

lemma initial_values: "set (map snd (state initial)) = {Num 1}"
  unfolding initial_def getDefaultState_eq by simp

theorem calculateWMSI_rounded_mean_witness:
  "calculateWMSI initial = js ''1.00''"
  using calculateWMSI_rounded_mean [OF initial_keys] initial_values
  by (simp add: severities_def)

subsection \<open>Toggling and setting a segment\<close>

lemma state_toggleSegment:
  "state (toggleSegment i c) =
     obj_set i (js_add (js_rem (case map_of (state c) i of None \<Rightarrow> NaN | Some v \<Rightarrow> v) (Num 4)) (Num 1)) (state c)"
  by (simp add: toggleSegment_def Let_def notifyListeners_def saveToStorage_def)

text \<open>
  C6. For a segment whose severity is 1 to 4, \<open>toggleSegment\<close> moves it to the next severity
  (from Dyskinetic back to Normal) and leaves every other segment as it was; four toggles of
  the same segment give back the state.
\<close>

theorem toggleSegment_cycle:
  assumes keys: "map fst (state c) = [1..<18]"
      and cur: "map_of (state c) i = Some (Num v)"
      and v: "1 \<le> v" "v \<le> 4"
  shows "map_of (state (toggleSegment i c)) i = Some (Num (if v = 4 then 1 else v + 1))
       \<and> (\<forall>j. j \<noteq> i \<longrightarrow> map_of (state (toggleSegment i c)) j = map_of (state c) j)
       \<and> map fst (state (toggleSegment i c)) = [1..<18]
       \<and> state (toggleSegment i (toggleSegment i (toggleSegment i (toggleSegment i c)))) = state c"
proof -
  have srt: "sorted_wrt (<) (map fst (state c))" using keys by simp
  have mem: "i \<in> fst ` set (state c)"
    using cur by (force dest: map_of_SomeD)
  have nxt: "js_add (js_rem (Num w) (Num 4)) (Num 1) = Num (if w = 4 then 1 else w + 1)"
    if "1 \<le> w" "w \<le> 4" for w :: int
  proof -
    have "w = 1 \<or> w = 2 \<or> w = 3 \<or> w = 4" using that by arith
    then show ?thesis by auto
  qed
  have step: "state (toggleSegment i d) = obj_set i (Num (if w = 4 then 1 else w + 1)) (state d)"
    if "map_of (state d) i = Some (Num w)" "1 \<le> w" "w \<le> 4" for d w
    using that by (simp add: state_toggleSegment nxt)
  define n1 where "n1 = (if v = 4 then 1 else v + 1)"
  define n2 where "n2 = (if n1 = 4 then 1 else n1 + 1)"
  define n3 where "n3 = (if n2 = 4 then 1 else n2 + 1)"
  have r1: "1 \<le> n1" "n1 \<le> 4" using v by (auto simp: n1_def)
  have r2: "1 \<le> n2" "n2 \<le> 4" using r1 by (auto simp: n2_def)
  have r3: "1 \<le> n3" "n3 \<le> 4" using r2 by (auto simp: n3_def)
  have wrap: "(if n3 = 4 then 1 else n3 + 1) = v" using v by (auto simp: n1_def n2_def n3_def)
  have s1: "state (toggleSegment i c) = obj_set i (Num n1) (state c)"
    using step [OF cur v] by (simp add: n1_def)
  have m1: "map_of (state (toggleSegment i c)) i = Some (Num n1)"
    by (simp add: s1 map_of_obj_set)
  have s2: "state (toggleSegment i (toggleSegment i c)) = obj_set i (Num n2) (state c)"
    using step [OF m1 r1] by (simp add: n2_def s1 obj_set_twice)
  have m2: "map_of (state (toggleSegment i (toggleSegment i c))) i = Some (Num n2)"
    by (simp add: s2 map_of_obj_set)
  have s3: "state (toggleSegment i (toggleSegment i (toggleSegment i c))) = obj_set i (Num n3) (state c)"
    using step [OF m2 r2] by (simp add: n3_def s2 obj_set_twice)
  have m3: "map_of (state (toggleSegment i (toggleSegment i (toggleSegment i c)))) i = Some (Num n3)"
    by (simp add: s3 map_of_obj_set)
  have s4: "state (toggleSegment i (toggleSegment i (toggleSegment i (toggleSegment i c)))) = obj_set i (Num v) (state c)"
    using step [OF m3 r3] by (simp add: wrap s3 obj_set_twice)
  have four: "state (toggleSegment i (toggleSegment i (toggleSegment i (toggleSegment i c)))) = state c"
    using s4 obj_set_same [OF srt cur] by simp
  have others: "\<forall>j. j \<noteq> i \<longrightarrow> map_of (state (toggleSegment i c)) j = map_of (state c) j"
    by (simp add: s1 map_of_obj_set)
  have k1: "map fst (state (toggleSegment i c)) = [1..<18]"
    using obj_set_keys [OF srt mem] keys by (simp add: s1)
  show ?thesis using m1 others k1 four by (simp add: n1_def)
qed

theorem toggleSegment_cycle_witness:
  "map_of (state (toggleSegment 5 initial)) 5 = Some (Num 2)
   \<and> state (toggleSegment 5 (toggleSegment 5 (toggleSegment 5 (toggleSegment 5 initial)))) = state initial"
  using toggleSegment_cycle [OF initial_keys initial_lookup] by simp

lemma guard_iff: "(js_ge v 1 \<and> js_le v 4) = from_1_to_4 v"
  by (cases v) (simp_all add: from_1_to_4_def)

text \<open>
  C9. \<open>setSegmentState\<close> tests the value against the range from 1 to 4, not against the four
  severities. With a number outside the range, with an infinity or with \<open>NaN\<close> it changes
  nothing: neither the state nor the storage nor the listeners' calls. With a number of the
  range, an integer or not, it sets that segment to the value, leaves the others, stores the
  state and calls the listeners.
\<close>

theorem setSegmentState_range:
  "(\<not> from_1_to_4 v \<longrightarrow> setSegmentState i v c = c)
   \<and> (from_1_to_4 v \<longrightarrow>
        map_of (state (setSegmentState i v c)) = (map_of (state c))(i \<mapsto> v)
        \<and> storage (setSegmentState i v c)
            = (storage c)(js ''motility-state'' \<mapsto> JSON_stringify (state (setSegmentState i v c)))
        \<and> pattern (setSegmentState i v c) = pattern c
        \<and> notified (setSegmentState i v c)
            = notified c @ [(Segment i, state (setSegmentState i v c))])"
  by (simp add: setSegmentState_def guard_iff map_of_obj_set notifyListeners_def saveToStorage_def)

theorem setSegmentState_range_witness:
  "setSegmentState 3 (Num 5) initial = initial
   \<and> setSegmentState 3 (Num 0) initial = initial
   \<and> setSegmentState 3 (Frac (9 / 2)) initial = initial
   \<and> setSegmentState 3 Infinity initial = initial
   \<and> setSegmentState 3 NaN initial = initial
   \<and> map_of (state (setSegmentState 3 (Num 4) initial)) 3 = Some (Num 4)
   \<and> map_of (state (setSegmentState 3 (Num 4) initial)) 2 = Some (Num 1)
   \<and> notified (setSegmentState 3 (Num 4) initial)
       = [(Segment 3, state (setSegmentState 3 (Num 4) initial))]"
  using setSegmentState_range [of "Num 5" 3 initial] setSegmentState_range [of "Num 0" 3 initial]
    setSegmentState_range [of "Frac (9 / 2)" 3 initial]
    setSegmentState_range [of Infinity 3 initial] setSegmentState_range [of NaN 3 initial]
    setSegmentState_range [of "Num 4" 3 initial]
  by (simp add: from_1_to_4_def initial_def getDefaultState_eq)

text \<open>
  The value 2.5 is none of the four severities, and \<open>setSegmentState\<close> stores it: segment 3
  of the first start then holds 2.5, the state is written to the storage with \<open>2.5\<close> in it,
  and the listeners are called.
\<close>

theorem setSegmentState_fraction_counterexample:
  "Frac (5 / 2) \<notin> severities
   \<and> setSegmentState 3 (Frac (5 / 2)) initial \<noteq> initial
   \<and> map_of (state (setSegmentState 3 (Frac (5 / 2)) initial)) 3 = Some (Frac (5 / 2))
   \<and> storage (setSegmentState 3 (Frac (5 / 2)) initial) (js ''motility-state'')
       = Some (JSON_stringify (obj_set 3 (Frac (5 / 2)) getDefaultState))
   \<and> stringify_num (Frac (5 / 2)) = js ''2.5''
   \<and> notified (setSegmentState 3 (Frac (5 / 2)) initial)
       = [(Segment 3, obj_set 3 (Frac (5 / 2)) getDefaultState)]"
proof -
  have f: "\<lfloor>5 / 2 :: rat\<rfloor> = 2"
    by (simp add: floor_eq_iff)
  have d: "decimals 30 (1 / 2) = [53]"
    by (simp add: numeral_eq_Suc)
  have t: "stringify_num (Frac (5 / 2)) = js ''2.5''"
    by (simp add: fracToString_def Let_def d f digits_small js_def)
  have g: "js_ge (Frac (5 / 2)) 1 \<and> js_le (Frac (5 / 2)) 4"
    by simp
  show ?thesis
    using g t
    by (simp add: setSegmentState_def severities_def initial_def notifyListeners_def
        saveToStorage_def map_of_obj_set)
qed

subsection \<open>Applying a pattern\<close>


lemma obj_set_map:
  "sorted_wrt (<) (map fst st) \<Longrightarrow> k \<in> fst ` set st \<Longrightarrow>
   obj_set k v st = map (\<lambda>(j, w). (j, if j = k then v else w)) st"
proof (induction st)
  case Nil
  then show ?case by simp
next
  case (Cons a st)
  obtain k' v' where a: "a = (k', v')" by (cases a)
  show ?case
  proof (cases "k = k'")
    case True
    have "\<forall>x\<in>set st. fst x \<noteq> k" using Cons.prems(1) a True by auto
    then have "map (\<lambda>(j, w). (j, if j = k then v else w)) st = st"
      by (intro map_idI) auto
    then show ?thesis using a True by simp
  next
    case False
    then have mem: "k \<in> fst ` set st" using Cons.prems(2) a by auto
    then have "k' < k" using Cons.prems(1) a by auto
    then show ?thesis using Cons mem a by simp
  qed
qed

lemma foldl_obj_set:
  "sorted_wrt (<) (map fst st) \<Longrightarrow> set ids \<subseteq> fst ` set st \<Longrightarrow>
   foldl (\<lambda>s i. obj_set i v s) st ids = map (\<lambda>(j, w). (j, if j \<in> set ids then v else w)) st"
proof (induction ids arbitrary: st)
  case Nil
  then show ?case by simp
next
  case (Cons i ids)
  let ?st = "obj_set i v st"
  have i: "i \<in> fst ` set st" using Cons.prems(2) by simp
  have eq: "?st = map (\<lambda>(j, w). (j, if j = i then v else w)) st"
    using obj_set_map [OF Cons.prems(1) i] .
  have keys: "map fst ?st = map fst st" using obj_set_keys [OF Cons.prems(1) i] .
  have srt: "sorted_wrt (<) (map fst ?st)" using keys Cons.prems(1) by simp
  have sub: "set ids \<subseteq> fst ` set ?st"
  proof -
    have "fst ` set ?st = set (map fst ?st)" by simp
    also have "\<dots> = fst ` set st" by (simp only: keys) simp
    finally show ?thesis using Cons.prems(2) by simp
  qed
  have "foldl (\<lambda>s i. obj_set i v s) st (i # ids) = foldl (\<lambda>s i. obj_set i v s) ?st ids" by simp
  also have "\<dots> = map (\<lambda>(j, w). (j, if j \<in> set ids then v else w)) ?st"
    using Cons.IH [OF srt sub] .
  also have "\<dots> = map (\<lambda>(j, w). (j, if j \<in> set (i # ids) then v else w)) st"
    by (simp add: eq) auto
  finally show ?case .
qed

lemma map_by_keys:
  "map (\<lambda>(j, w). (j, g j)) st = map (\<lambda>j. (j, g j)) (map fst st)"
  by (induction st) auto

lemma apply_pattern_state:
  assumes keys: "map fst st = [1..<18]" and sub: "set ids \<subseteq> {1..17}"
  shows "foldl (\<lambda>s i. obj_set i v s) (foldl (\<lambda>s i. obj_set i (Num 1) s) st [1..<18]) ids = marked ids v"
proof -
  have srt: "sorted_wrt (<) (map fst st)" using keys by simp
  have ks: "fst ` set st = {1..<18}"
  proof -
    have "fst ` set st = set (map fst st)" by simp
    then show ?thesis by (simp only: keys) simp
  qed
  have all: "set [1..<18] \<subseteq> fst ` set st" using ks by simp
  define st1 where "st1 = foldl (\<lambda>s i. obj_set i (Num 1) s) st [1..<18]"
  have "st1 = map (\<lambda>(j, w). (j, if j \<in> set [1..<18] then Num 1 else w)) st"
    unfolding st1_def using foldl_obj_set [OF srt all] .
  also have "\<dots> = map (\<lambda>(j, w). (j, Num 1)) st"
    using ks by (intro map_cong) (auto simp: rev_image_eqI)
  finally have st1: "st1 = map (\<lambda>(j, w). (j, Num 1)) st" .
  have k1: "map fst st1 = [1..<18]" using keys by (simp add: st1 comp_def case_prod_unfold)
  have srt1: "sorted_wrt (<) (map fst st1)" using k1 by simp
  have ks1: "fst ` set st1 = {1..<18}"
  proof -
    have "fst ` set st1 = set (map fst st1)" by simp
    then show ?thesis by (simp only: k1) simp
  qed
  have sub1: "set ids \<subseteq> fst ` set st1" using sub ks1 by auto
  have "foldl (\<lambda>s i. obj_set i v s) st1 ids = map (\<lambda>(j, w). (j, if j \<in> set ids then v else w)) st1"
    using foldl_obj_set [OF srt1 sub1] .
  also have "\<dots> = map (\<lambda>(j, w). (j, if j \<in> set ids then v else Num 1)) st"
    by (simp add: st1 comp_def case_prod_unfold)
  also have "\<dots> = map (\<lambda>j. (j, if j \<in> set ids then v else Num 1)) (map fst st)"
    using map_by_keys [of "\<lambda>j. if j \<in> set ids then v else Num 1" st] .
  finally show ?thesis by (simp add: st1_def marked_def keys)
qed

lemma lookup_dilated: "map_of PATTERNS (js ''dilated_cm'') = Some
  \<lparr>pname = js ''Miocardiopat'' @ [237] @ js ''a Dilatada'', description = js ''Hipoquinesia difusa global'',
   affectedSegments = [1, 2, 3, 4, 5, 6, 7, 8, 9, 10, 11, 12, 13, 14, 15, 16], severity = Num 2,
   category = js ''cardiomyopathy'', isDiffuse = True\<rparr>"
  by code_simp

lemma lookup_bcrd: "map_of PATTERNS (js ''bcrd'') = Some
  \<lparr>pname = js ''BCRD (Rama Derecha)'',
   description = js ''Asincron'' @ [237] @ js ''a septal leve por bloqueo de rama derecha'',
   affectedSegments = [2, 8], severity = Num 1,
   category = js ''dyssynchrony'', isDiffuse = False\<rparr>"
  by code_simp


lemma abnormal_cong:
  "state c = state d \<Longrightarrow> getAbnormalSegments c = getAbnormalSegments d"
  by (simp add: getAbnormalSegments_def)

lemma total_cong: "state c = state d \<Longrightarrow> totalAbnormal c = totalAbnormal d"
  using abnormal_cong [of c d] by (simp add: totalAbnormal_def)

lemma wmsi_cong: "state c = state d \<Longrightarrow> calculateWMSI c = calculateWMSI d"
  by (simp add: calculateWMSI_def)

lemma focal_cong:
  assumes "state c = state d"
  shows "focalText c = focalText d"
  unfolding focalText_def abnormal_cong [OF assms] wmsi_cong [OF assms] by (rule refl)

lemma diffuse_cong:
  assumes "state c = state d"
  shows "diffuseText c p = diffuseText d p"
  unfolding diffuseText_def abnormal_cong [OF assms] wmsi_cong [OF assms] by (rule refl)

lemma dyssynchrony_cong:
  assumes "state c = state d" "pattern c = pattern d"
  shows "dyssynchronyText c p = dyssynchronyText d p"
  unfolding dyssynchronyText_def wmsi_cong [OF assms(1)] assms(2) by (rule refl)

lemma report_cong:
  assumes "state c = state d" "pattern c = pattern d"
  shows "generateMotilityReport c = generateMotilityReport d"
  unfolding generateMotilityReport_def currentPattern_def total_cong [OF assms(1)]
    focal_cong [OF assms(1)] diffuse_cong [OF assms(1)] dyssynchrony_cong [OF assms] assms(2)
  by (rule refl)

lemma canned_cong: "pattern c = pattern d \<Longrightarrow> cannedConclusion c = cannedConclusion d"
  by (simp add: cannedConclusion_def)

lemma territory_cong:
  assumes "state c = state d"
  shows "territoryConclusion c = territoryConclusion d"
  unfolding territoryConclusion_def abnormal_cong [OF assms] by (rule refl)

lemma conclusion_cong:
  assumes "state c = state d" "pattern c = pattern d"
  shows "generateConclusion c = generateConclusion d"
  unfolding generateConclusion_def total_cong [OF assms(1)] canned_cong [OF assms(2)]
    territory_cong [OF assms(1)]
  by (rule refl)

lemma state_setPattern:
  assumes "map_of PATTERNS p = Some q" "p \<noteq> js ''none''" "affectedSegments q \<noteq> []"
  shows "\<exists>c'. setPattern p c = Returns c'
           \<and> state c' =
               foldl (\<lambda>s i. obj_set i (if truthy (severity q) then severity q else Num 3) s)
                 (foldl (\<lambda>s i. obj_set i (Num 1) s) (state c) [1..<18]) (affectedSegments q)
           \<and> pattern c' = p"
  using assms by (simp add: setPattern_def setItem_def Let_def notifyListeners_def saveToStorage_def)

lemma after_dilated_report:
  "generateMotilityReport after_dilated =
     Inr (js ''Se observan trastornos segmentarios de la motilidad parietal: hipoquinesia''
          @ js '' global difusa que no respeta un territorio coronario espec'' @ [237]
          @ js ''fico (WMSI: 1.94).'' @ [10])"
  by code_simp

lemma after_dilated_abnormal:
  "getAbnormalSegments after_dilated =
     \<lparr>hypokinetic = [1, 2, 3, 4, 5, 6, 7, 8, 9, 10, 11, 12, 13, 14, 15, 16], akinetic = [], dyskinetic = []\<rparr>"
  by code_simp

lemma difusa_occurs:
  "str_includes (js ''Se observan trastornos segmentarios de la motilidad parietal: hipoquinesia''
          @ js '' global difusa que no respeta un territorio coronario espec'' @ [237]
          @ js ''fico (WMSI: 1.94).'' @ [10]) (js ''difusa'')"
  by code_simp

text \<open>
  C5. From any 17-segment state, \<open>setPattern\<close> with \<open>dilated_cm\<close> leaves the segments 1 to 16
  Hypokinetic and segment 17 Normal, so the abnormal segments are 1 to 16, all in the
  hypokinetic tier, and the findings text is the one global sentence of the diffuse
  pattern, which contains \<open>difusa\<close>.
\<close>

theorem setPattern_dilated_cm:
  assumes "seventeen c"
  shows "\<exists>c'. setPattern (js ''dilated_cm'') c = Returns c'
       \<and> state c' = map (\<lambda>i. (i, if i \<le> 16 then Num 2 else Num 1)) [1..<18]
       \<and> getAbnormalSegments c' = \<lparr>hypokinetic = [1..<17], akinetic = [], dyskinetic = []\<rparr>
       \<and> (\<exists>t. generateMotilityReport c' = Inr t
              \<and> t = js ''Se observan trastornos segmentarios de la motilidad parietal: hipoquinesia''
                    @ js '' global difusa que no respeta un territorio coronario espec'' @ [237]
                    @ js ''fico (WMSI: 1.94).'' @ [10]
              \<and> str_includes t (js ''difusa''))"
proof -
  have ne: "js ''dilated_cm'' \<noteq> js ''none''" by (simp add: js_def)
  have keys: "map fst (state c) = [1..<18]" using assms by (simp add: seventeen_def)
  obtain c' where ret: "setPattern (js ''dilated_cm'') c = Returns c'"
    and st0: "state c' =
               foldl (\<lambda>s i. obj_set i (Num 2) s)
                 (foldl (\<lambda>s i. obj_set i (Num 1) s) (state c) [1..<18])
                 [1, 2, 3, 4, 5, 6, 7, 8, 9, 10, 11, 12, 13, 14, 15, 16]"
    and pt0: "pattern c' = js ''dilated_cm''"
    using state_setPattern [OF lookup_dilated ne, of c] by auto
  have st: "state c' = state after_dilated"
    using st0 apply_pattern_state [OF keys, of "[1, 2, 3, 4, 5, 6, 7, 8, 9, 10, 11, 12, 13, 14, 15, 16]" "Num 2"]
    by (simp add: after_dilated_def)
  have pt: "pattern c' = pattern after_dilated"
    using pt0 by (simp add: after_dilated_def)
  have "marked [1, 2, 3, 4, 5, 6, 7, 8, 9, 10, 11, 12, 13, 14, 15, 16] (Num 2)
          = map (\<lambda>i. (i, if i \<le> 16 then Num 2 else Num 1)) [1..<18]"
    unfolding marked_def upt_1_18 by simp
  then have 1: "state c' = map (\<lambda>i. (i, if i \<le> 16 then Num 2 else Num 1)) [1..<18]"
    using st by (simp add: after_dilated_def)
  have 2: "getAbnormalSegments c' = \<lparr>hypokinetic = [1..<17], akinetic = [], dyskinetic = []\<rparr>"
  proof -
    have "[1..<17] = [1, 2, 3, 4, 5, 6, 7, 8, 9, 10, 11, 12, 13, 14, 15, 16::nat]" by code_simp
    then show ?thesis using abnormal_cong [OF st] after_dilated_abnormal by simp
  qed
  have 3: "generateMotilityReport c' = generateMotilityReport after_dilated"
    using report_cong [OF st pt] .
  show ?thesis using ret 1 2 3 after_dilated_report difusa_occurs by simp
qed

theorem setPattern_dilated_cm_witness:
  "seventeen initial
   \<and> (\<exists>c'. setPattern (js ''dilated_cm'') initial = Returns c'
         \<and> getAbnormalSegments c' = \<lparr>hypokinetic = [1..<17], akinetic = [], dyskinetic = []\<rparr>)"
proof -
  have s: "seventeen initial" by (simp add: seventeen_def initial_keys)
  show ?thesis using s setPattern_dilated_cm [OF s] by blast
qed

lemma total_default: "state d = getDefaultState \<Longrightarrow> totalAbnormal d = 0"
  by (simp add: totalAbnormal_def getAbnormalSegments_def getDefaultState_eq)

lemma marked_normal: "marked ids (Num 1) = getDefaultState"
  unfolding marked_def getDefaultState_eq upt_1_18 by simp

lemma bcrd_report:
  assumes "pattern d = js ''bcrd''"
  shows "generateMotilityReport d =
           (if totalAbnormal d = 0 then Inr []
            else Inr (bcrd_findings @ js '' (WMSI: '' @ calculateWMSI d @ js '').'' @ [10]))"
proof -
  have cp: "currentPattern d = map_of PATTERNS (js ''bcrd'')"
    using assms by (simp add: currentPattern_def js_def)
  have ne: "js ''bcrd'' \<noteq> js ''bcri''" by (simp add: js_def)
  show ?thesis
    using assms ne
    by (simp add: generateMotilityReport_def cp lookup_bcrd dyssynchronyText_def bcrd_findings_def)
qed

lemma bcrd_canned:
  assumes "pattern d = js ''bcrd''"
  shows "cannedConclusion d = Some bcrd_conclusion"
proof -
  have ne: "js ''bcrd'' \<noteq> js ''none''" "js ''bcrd'' \<noteq> js ''dilated_cm''"
    "js ''bcrd'' \<noteq> js ''post_surgery''" "js ''bcrd'' \<noteq> js ''bcri''" "js ''bcrd'' \<noteq> js ''pacemaker''"
    by (simp_all add: js_def)
  show ?thesis unfolding cannedConclusion_def Let_def assms bcrd_conclusion_def
    using ne by simp
qed

text \<open>
  C10. From any 17-segment state, \<open>setPattern\<close> with \<open>bcrd\<close> (severity 1) leaves every
  segment Normal, so \<open>generateMotilityReport\<close> and \<open>generateConclusion\<close> both return the empty
  string. With \<open>bcrd\<close> active the canned sentences are returned exactly when some segment is
  abnormal, which takes another operation: one toggle of segment 2 does it.
\<close>

theorem setPattern_bcrd:
  assumes "seventeen c"
  shows "\<exists>c'. setPattern (js ''bcrd'') c = Returns c'
       \<and> state c' = getDefaultState
       \<and> totalAbnormal c' = 0
       \<and> generateMotilityReport c' = Inr []
       \<and> generateConclusion c' = Inr []
       \<and> (\<forall>d. pattern d = js ''bcrd'' \<longrightarrow>
              generateMotilityReport d =
                (if totalAbnormal d = 0 then Inr []
                 else Inr (bcrd_findings @ js '' (WMSI: '' @ calculateWMSI d @ js '').'' @ [10]))
              \<and> generateConclusion d = (if totalAbnormal d = 0 then Inr [] else Inr bcrd_conclusion))
       \<and> totalAbnormal (toggleSegment 2 c') = 1"
proof -
  have ne: "js ''bcrd'' \<noteq> js ''none''" by (simp add: js_def)
  have keys: "map fst (state c) = [1..<18]" using assms by (simp add: seventeen_def)
  obtain c' where ret: "setPattern (js ''bcrd'') c = Returns c'"
    and st0: "state c' =
               foldl (\<lambda>s i. obj_set i (Num 1) s)
                 (foldl (\<lambda>s i. obj_set i (Num 1) s) (state c) [1..<18]) [2, 8]"
    and pt: "pattern c' = js ''bcrd''"
    using state_setPattern [OF lookup_bcrd ne, of c] by auto
  have st: "state c' = getDefaultState"
    using st0 apply_pattern_state [OF keys, of "[2, 8]" "Num 1"]
    by (simp add: marked_normal)
  have tot: "totalAbnormal c' = 0" using total_default [OF st] .
  have gen: "generateConclusion d = (if totalAbnormal d = 0 then Inr [] else Inr bcrd_conclusion)"
    if "pattern d = js ''bcrd''" for d
    using bcrd_canned [OF that] by (simp add: generateConclusion_def)
  have tog: "state (toggleSegment 2 c') = obj_set 2 (Num 2) getDefaultState"
    by (simp add: state_toggleSegment st getDefaultState_eq)
  have one: "totalAbnormal (toggleSegment 2 c') = 1"
    by (simp add: totalAbnormal_def getAbnormalSegments_def tog getDefaultState_eq)
  show ?thesis using ret st tot bcrd_report gen pt one by simp
qed

theorem setPattern_bcrd_witness:
  "seventeen initial
   \<and> (\<exists>c'. setPattern (js ''bcrd'') initial = Returns c'
         \<and> generateMotilityReport c' = Inr []
         \<and> generateConclusion c' = Inr [])"
proof -
  have s: "seventeen initial" by (simp add: seventeen_def initial_keys)
  show ?thesis using s setPattern_bcrd [OF s] by blast
qed

subsection \<open>Findings text of the focal path\<close>


























subsection \<open>Dominant territory\<close>









subsection \<open>Construction\<close>

lemma parse_value_bad_start:
  assumes "\<not> is_ws c" "c \<noteq> 123" "c \<noteq> 91" "c \<noteq> 34" "c \<noteq> 45" "\<not> is_digit c"
    "c \<noteq> 116" "c \<noteq> 102" "c \<noteq> 110"
  shows "parse_value (Suc n) (c # r) = Malformed"
  using assms by (simp add: skip_ws_def startsWith_def js_def)

lemma JSON_parse_bad_start:
  assumes "\<not> is_ws c" "c \<noteq> 123" "c \<noteq> 91" "c \<noteq> 34" "c \<noteq> 45" "\<not> is_digit c"
    "c \<noteq> 116" "c \<noteq> 102" "c \<noteq> 110"
  shows "JSON_parse (c # r) = Some (Inl SyntaxError)"
proof -
  have "2 * length (c # r) + 2 = Suc (2 * length r + 3)" by simp
  then show ?thesis
    unfolding JSON_parse_def using parse_value_bad_start [OF assms] by (simp del: parse_value.simps)
qed

lemma corrupt_not_json: "JSON_parse (js ''corrupt'') = Some (Inl SyntaxError)"
proof -
  have "js ''corrupt'' = 99 # js ''orrupt''" by (simp add: js_def)
  then show ?thesis using JSON_parse_bad_start [of 99 "js ''orrupt''"]
    by (simp add: is_ws_def is_digit_def)
qed

text \<open>
  C2, as stated, fails: the text \<open>corrupt\<close> is no JSON, and with it stored the constructor
  throws the SyntaxError of \<open>JSON.parse\<close>.
\<close>

theorem constructor_corrupt_counterexample:
  "JSON_parse (js ''corrupt'') = Some (Inl SyntaxError)
   \<and> new_MotilityController corrupt_store = Some (Inl SyntaxError)"
proof -
  have "js ''corrupt'' \<noteq> []" by (simp add: js_def)
  then show ?thesis
    by (simp add: corrupt_not_json new_MotilityController_def loadFromStorage_def corrupt_store_def)
qed

text \<open>
  C2, as the code has it. When the severity map is absent from the storage or is the empty
  string, the constructor does not throw and gives the default state, with the stored
  pattern name or else \<open>none\<close>. For every other stored text that is no JSON the SyntaxError
  leaves the constructor.
\<close>

theorem constructor_fallback:
  "((store (js ''motility-state'') = None \<or> store (js ''motility-state'') = Some []) \<longrightarrow>
      new_MotilityController store =
        Some (Inr \<lparr>state = getDefaultState,
                   pattern = (case store (js ''motility-pattern'') of
                                None \<Rightarrow> js ''none''
                              | Some p \<Rightarrow> if p = [] then js ''none'' else p),
                   storage = store, notified = []\<rparr>))
   \<and> (\<forall>s. store (js ''motility-state'') = Some s \<and> s \<noteq> [] \<and> JSON_parse s = Some (Inl SyntaxError) \<longrightarrow>
          new_MotilityController store = Some (Inl SyntaxError))"
  by (auto simp: new_MotilityController_def loadFromStorage_def)

theorem constructor_fallback_witness:
  "new_MotilityController Map.empty = Some (Inr initial)
   \<and> new_MotilityController [js ''motility-state'' \<mapsto> []] = Some (Inr (initial\<lparr>storage := [js ''motility-state'' \<mapsto> []]\<rparr>))
   \<and> new_MotilityController corrupt_store = Some (Inl SyntaxError)"
proof -
  have ne: "js ''corrupt'' \<noteq> []" "js ''motility-pattern'' \<noteq> js ''motility-state''" by (simp_all add: js_def)
  show ?thesis
    using constructor_fallback [of Map.empty] constructor_fallback [of "[js ''motility-state'' \<mapsto> []]"]
      constructor_fallback [of corrupt_store] corrupt_not_json ne
    by (simp add: initial_def corrupt_store_def)
qed

subsection \<open>The numbered conclusions\<close>

lemma numbered_append:
  "numbered n (bs @ cs) = numbered n bs @ numbered (n + length bs) cs"
  by (induction bs arbitrary: n) auto

lemma appends_none: "appends [] l l"
  by (simp add: appends_def)

lemma appends_emit: "appends [b] l (emit b l)"
  by (simp add: appends_def emit_def)

lemma appends_trans: "appends bs l l' \<Longrightarrow> appends cs l' l'' \<Longrightarrow> appends (bs @ cs) l l''"
  by (simp add: appends_def numbered_append)

lemma emit_ex: "\<exists>bs. appends bs l (emit b l)"
  using appends_emit by blast

lemma none_ex: "\<exists>bs. appends bs l l"
  using appends_none by blast


text \<open>
  \<open>calculateAll\<close> keeps the PSAP of the page when the velocity is missing or not positive, and
  else stores the PSAP of the calculator, which is 0 only for such a velocity.
\<close>

lemma calculateAll_psap:
  "psap (calculateAll i) =
     (if \<not> num_truthy (velIt i) \<or> num_le (velIt i) 0 then psap i
      else Math_round (num_add (gradient (velIt i))
                         (if num_truthy (pad i) then pad i else Finite 5)))"
  by (simp add: calculateAll_def calculatePSAP_def HemodynamicsCalculator_calculatePSAP_def Let_def)






subsection \<open>Merging the motility conclusion\<close>


lemma is_word_upper: "is_word (ascii_upper c) = is_word c"
  by (auto simp: is_word_def ascii_upper_def)

lemma upper_eq_word: "ascii_upper c = ascii_upper p \<Longrightarrow> is_word p \<Longrightarrow> is_word c"
  by (metis is_word_upper)

lemma same_ci_refl: "same_ci w w"
  by (simp add: same_ci_def)

lemma same_ci_sym: "same_ci a b \<Longrightarrow> same_ci b a"
  by (simp add: same_ci_def)

lemma same_ci_trans: "same_ci a b \<Longrightarrow> same_ci b c \<Longrightarrow> same_ci a c"
  by (simp add: same_ci_def)

lemma same_ci_length: "same_ci a b \<Longrightarrow> length a = length b"
  unfolding same_ci_def by (rule map_eq_imp_length_eq)

lemma same_ci_word: "same_ci w t \<Longrightarrow> list_all is_word t \<Longrightarrow> list_all is_word w"
proof (induction w arbitrary: t)
  case Nil
  then show ?case by simp
next
  case (Cons c w)
  then obtain p ps where t: "t = p # ps" by (cases t) (auto simp: same_ci_def)
  then show ?case using Cons upper_eq_word by (auto simp: same_ci_def)
qed

lemma same_ci_word_iff: "same_ci w t \<Longrightarrow> list_all is_word w = list_all is_word t"
  using same_ci_word same_ci_sym by blast

lemma matches_ci_iff:
  "matches_ci t s \<longleftrightarrow> length t \<le> length s \<and> same_ci (take (length t) s) t"
  by (induction t s rule: matches_ci.induct) (auto simp: same_ci_def)

lemma no_match_at_other:
  assumes "t \<noteq> []" "list_all is_word t" "\<not> is_word c"
  shows "\<not> matches_ci t (c # cs)"
proof -
  obtain p ps where t: "t = p # ps" using assms(1) by (cases t) auto
  then show ?thesis using assms upper_eq_word by auto
qed

lemma replace_token_inside:
  assumes "t \<noteq> []" "list_all is_word t"
  shows "replace_token t r True s
       = takeWhile is_word s @ replace_token t r False (dropWhile is_word s)"
proof (induction s)
  case Nil
  then show ?case by simp
next
  case (Cons c cs)
  show ?case
  proof (cases "is_word c")
    case True
    then show ?thesis using Cons by simp
  next
    case False
    then show ?thesis using no_match_at_other [OF assms False] by simp
  qed
qed

lemma takeWhile_at_least:
  "list_all P (take n s) \<Longrightarrow> n \<le> length s \<Longrightarrow> n \<le> length (takeWhile P s)"
proof (induction s arbitrary: n)
  case Nil
  then show ?case by simp
next
  case (Cons a s)
  then show ?case by (cases n) auto
qed

lemma takeWhile_at_most:
  "n \<le> length s \<Longrightarrow> (case drop n s of [] \<Rightarrow> True | d # _ \<Rightarrow> \<not> P d) \<Longrightarrow>
   length (takeWhile P s) \<le> n"
proof (induction s arbitrary: n)
  case Nil
  then show ?case by simp
next
  case (Cons a s)
  then show ?case by (cases n) auto
qed

lemma dropWhile_head:
  "(case dropWhile P s of [] \<Rightarrow> True | d # _ \<Rightarrow> \<not> P d)"
  by (induction s) auto

lemma replace_token_runs:
  assumes t: "t \<noteq> []" "list_all is_word t"
  shows "replace_token t r False s = concat (map (\<lambda>w. if same_ci w t then r else w) (runs s))"
proof (induction s rule: runs.induct)
  case 1
  then show ?case by simp
next
  case (2 c cs)
  show ?case
  proof (cases "is_word c")
    case False
    have "\<not> same_ci [c] t"
      using same_ci_word [of "[c]" t] t(2) False by auto
    then show ?thesis
      using False 2(2) no_match_at_other [OF t False] by simp
  next
    case True
    define w where "w = c # takeWhile is_word cs"
    define rest where "rest = dropWhile is_word cs"
    have s: "c # cs = w @ rest" by (simp add: w_def rest_def)
    have tw: "takeWhile is_word (c # cs) = w" using True by (simp add: w_def)
    have rest_hd: "(case rest of [] \<Rightarrow> True | d # _ \<Rightarrow> \<not> is_word d)"
      unfolding rest_def by (rule dropWhile_head)
    have ih: "replace_token t r False rest
        = concat (map (\<lambda>w. if same_ci w t then r else w) (runs rest))"
      using 2(1) [OF True] by (simp add: rest_def)
    have rn: "runs (c # cs) = w # runs rest" using True by (simp add: w_def rest_def)
    have cond: "(matches_ci t (c # cs)
                 \<and> (case drop (length t) (c # cs) of [] \<Rightarrow> True | d # _ \<Rightarrow> \<not> is_word d))
              \<longleftrightarrow> same_ci w t" (is "?m \<longleftrightarrow> _")
    proof
      assume m: ?m
      then have len: "length t \<le> length (c # cs)"
        and sc: "same_ci (take (length t) (c # cs)) t"
        by (simp_all only: matches_ci_iff)
      have nx: "(case drop (length t) (c # cs) of [] \<Rightarrow> True | d # _ \<Rightarrow> \<not> is_word d)"
        using m by blast
      have wd: "list_all is_word (take (length t) (c # cs))" using same_ci_word [OF sc t(2)] .
      have ge: "length t \<le> length w" using takeWhile_at_least [OF wd len] by (simp only: tw)
      have le: "length w \<le> length t" using takeWhile_at_most [OF len nx] by (simp only: tw)
      have "take (length t) (c # cs) = w" using ge le by (simp only: s) simp
      then show "same_ci w t" using sc by simp
    next
      assume sc: "same_ci w t"
      then have len: "length w = length t" by (rule same_ci_length)
      have tk: "take (length t) (c # cs) = w" by (simp only: s len [symmetric]) simp
      have dr: "drop (length t) (c # cs) = rest" by (simp only: s len [symmetric]) simp
      show ?m using sc rest_hd len by (simp only: matches_ci_iff tk dr s) simp
    qed
    show ?thesis
    proof (cases "same_ci w t")
      case sc: True
      then have len: "length t = Suc (length (takeWhile is_word cs))"
        using same_ci_length [OF sc] by (simp add: w_def)
      have dr: "drop (length t - 1) cs = rest"
        by (simp add: len rest_def dropWhile_eq_drop)
      have tr: "takeWhile is_word rest = []" "dropWhile is_word rest = rest"
        using rest_hd by (cases rest; simp)+
      have yc: "\<not> False \<and> matches_ci t (c # cs)
                 \<and> (case drop (length t) (c # cs) of [] \<Rightarrow> True | d # _ \<Rightarrow> \<not> is_word d)"
        using cond sc by blast
      have "replace_token t r False (c # cs) = r @ replace_token t r True (drop (length t - 1) cs)"
        by (subst replace_token.simps) (rule if_P [OF yc])
      then have "replace_token t r False (c # cs) = r @ replace_token t r True rest"
        by (simp only: dr)
      also have "\<dots> = r @ replace_token t r False rest"
        by (simp add: replace_token_inside [OF t] tr)
      finally show ?thesis using ih rn sc by simp
    next
      case nsc: False
      have nc: "\<not> (\<not> False \<and> matches_ci t (c # cs)
                 \<and> (case drop (length t) (c # cs) of [] \<Rightarrow> True | d # _ \<Rightarrow> \<not> is_word d))"
        using cond nsc by blast
      have "replace_token t r False (c # cs) = c # replace_token t r (is_word c) cs"
        by (subst replace_token.simps) (rule if_not_P [OF nc])
      then have "replace_token t r False (c # cs) = c # replace_token t r True cs"
        using True by simp
      also have "\<dots> = w @ replace_token t r False rest"
        by (simp add: replace_token_inside [OF t] w_def rest_def)
      finally show ?thesis using ih rn nsc by simp
    qed
  qed
qed

lemma wf_runs_runs: "wf_runs (runs s)"
proof (induction s rule: runs.induct)
  case 1
  then show ?case by simp
next
  case (2 c cs)
  show ?case
  proof (cases "is_word c")
    case False
    then show ?thesis using 2(2) by simp
  next
    case True
    have w: "list_all is_word (c # takeWhile is_word cs)"
      using True by (simp add: list_all_iff) (meson set_takeWhileD)
    have nxt: "(case runs (dropWhile is_word cs) of [] \<Rightarrow> True | r' # _ \<Rightarrow> \<not> list_all is_word r')"
    proof (cases "dropWhile is_word cs")
      case Nil
      show ?thesis unfolding Nil by simp
    next
      case (Cons d ds)
      then have nd: "\<not> is_word d" using dropWhile_head [of is_word cs] by simp
      show ?thesis unfolding Cons using nd by simp
    qed
    show ?thesis using True w nxt 2(1) by simp
  qed
qed

lemma runs_concat: "wf_runs rs \<Longrightarrow> runs (concat rs) = rs"
proof (induction rs)
  case Nil
  then show ?case by simp
next
  case (Cons r rs)
  have ih: "runs (concat rs) = rs" using Cons by simp
  show ?case
  proof (cases "list_all is_word r")
    case False
    then obtain c where r: "r = [c]" using Cons.prems by (cases r) auto
    then have "\<not> is_word c" using False by simp
    then show ?thesis using r ih by simp
  next
    case True
    obtain c r0 where r: "r = c # r0" using Cons.prems by (cases r) auto
    have c: "is_word c" and r0: "\<forall>x\<in>set r0. is_word x" using True r by (auto simp: list_all_iff)
    have x: "takeWhile is_word (concat rs) = [] \<and> dropWhile is_word (concat rs) = concat rs"
    proof (cases rs)
      case Nil
      then show ?thesis by simp
    next
      case (Cons r' rs')
      then have "\<not> list_all is_word r'" "length r' = 1" using Cons.prems True
        by (auto split: if_splits)
      then obtain d where "r' = [d]" "\<not> is_word d" by (cases r') auto
      then show ?thesis using Cons by simp
    qed
    have "takeWhile is_word (r0 @ concat rs) = r0" "dropWhile is_word (r0 @ concat rs) = concat rs"
      using r0 x by (simp_all add: takeWhile_append2 dropWhile_append2)
    then show ?thesis using r c ih by simp
  qed
qed

lemma wf_runs_map:
  assumes g: "\<And>w. same_ci (g w) w"
  shows "wf_runs rs \<Longrightarrow> wf_runs (map g rs)"
proof (induction rs)
  case Nil
  then show ?case by simp
next
  case (Cons r rs)
  have len: "length (g w) = length w" for w using same_ci_length [OF g] .
  have wd: "list_all is_word (g w) = list_all is_word w" for w using same_ci_word_iff [OF g] .
  have ne: "g r \<noteq> []" using Cons.prems len [of r] by auto
  have ih: "wf_runs (map g rs)" using Cons by simp
  have shape: "if list_all is_word r
      then (case rs of [] \<Rightarrow> True | r' # _ \<Rightarrow> \<not> list_all is_word r') else length r = 1"
    using Cons.prems by simp
  have "if list_all is_word (g r)
      then (case map g rs of [] \<Rightarrow> True | r' # _ \<Rightarrow> \<not> list_all is_word r') else length (g r) = 1"
  proof (cases rs)
    case Nil
    show ?thesis using shape unfolding Nil
      by (cases "list_all is_word r") (simp_all add: wd len)
  next
    case (Cons r' rs')
    show ?thesis using shape unfolding Cons
      by (cases "list_all is_word r") (simp_all add: wd len)
  qed
  then show ?case using ne ih by simp
qed

lemma replace_token_again:
  assumes t: "t \<noteq> []" "list_all is_word t" and g: "\<And>w. same_ci (g w) w"
  shows "replace_token t r False (concat (map g (runs s)))
       = concat (map (\<lambda>w. if same_ci (g w) t then r else g w) (runs s))"
proof -
  have "runs (concat (map g (runs s))) = map g (runs s)"
    using runs_concat wf_runs_map [of g, OF g] wf_runs_runs by blast
  then show ?thesis by (simp add: replace_token_runs [OF t] comp_def)
qed

lemma tokens_ci:
  "same_ci (js ''DA'') (js ''da'')" "same_ci (js ''CD'') (js ''cd'')"
  "same_ci (js ''Cx'') (js ''cx'')" "same_ci (js ''WMSI'') (js ''wmsi'')"
  by (simp_all add: same_ci_def js_def ascii_upper_def)

lemma tokens_word:
  "js ''da'' \<noteq> [] \<and> list_all is_word (js ''da'')" "js ''cd'' \<noteq> [] \<and> list_all is_word (js ''cd'')"
  "js ''cx'' \<noteq> [] \<and> list_all is_word (js ''cx'')" "js ''wmsi'' \<noteq> [] \<and> list_all is_word (js ''wmsi'')"
  by (simp_all add: js_def is_word_def)

lemma tokens_apart:
  "\<not> same_ci (js ''da'') (js ''cd'')" "\<not> same_ci (js ''da'') (js ''cx'')" "\<not> same_ci (js ''da'') (js ''wmsi'')"
  "\<not> same_ci (js ''cd'') (js ''cx'')" "\<not> same_ci (js ''cd'') (js ''wmsi'')" "\<not> same_ci (js ''cx'') (js ''wmsi'')"
  by (simp_all add: same_ci_def js_def ascii_upper_def)

end
